theory Spec2Isabelle
  imports Main "HOL-Library.Char_ord" "HOL-Library.List_Lexorder" "HOL-Library.Multiset"
begin

section \<open>The outside world\<close>

text \<open>
  The scraper talks to an HTTP server, sleeps between retries and reads and writes CSV
  files. These effects are made explicit: every function that performs one takes the
  \<open>world\<close> and returns it updated. Logging calls are diagnostics only and are left out.

  An HTTP attempt either yields a response or raises \<open>requests.RequestException\<close>. What
  the server answers to the \<open>n\<close>-th attempt of a run is given by a \<open>network\<close>, an
  arbitrary function of the attempt number and of the request, so a statement proved for
  every network covers every sequence of responses and network exceptions.
\<close>

datatype error = ValueError | FileNotFoundError | IndexError

text \<open>The value of \<open>method.upper()\<close>: \<open>"GET"\<close>, \<open>"POST"\<close>, or anything else.\<close>

datatype http_method = GET | POST | Unsupported

record response =
  status_code :: int
  resp_text :: string

datatype outcome = Responded response | RequestException

record request =
  req_url :: string
  req_method :: http_method
  req_headers :: "string \<rightharpoonup> string"
  req_data :: "(string \<rightharpoonup> string) option"

type_synonym network = "nat \<Rightarrow> request \<Rightarrow> outcome"

section \<open>models/job\_posting.py\<close>

record JobPosting =
  title :: "string option"
  company :: "string option"
  location :: "string option"
  date_posted :: "string option"
  job_link :: "string option"
  description :: "string option"
  seniority_level :: "string option"
  employment_type :: "string option"
  job_function :: "string option"
  industries :: "string option"
  applicants :: "string option"
  company_url :: "string option"
  time_posted :: "string option"
  company_size :: "string option"
  founded :: "string option"
  company_type :: "string option"
  industry :: "string option"
  headquarters :: "string option"

text \<open>
  The constructor: \<open>title\<close> and \<open>job_link\<close> are required arguments, every other field
  defaults to \<open>None\<close>.
\<close>

definition new_JobPosting :: "string option \<Rightarrow> string option \<Rightarrow> JobPosting" where
  "new_JobPosting t l =
     \<lparr>title = t, company = None, location = None, date_posted = None, job_link = l,
      description = None, seniority_level = None, employment_type = None,
      job_function = None, industries = None, applicants = None, company_url = None,
      time_posted = None, company_size = None, founded = None, company_type = None,
      industry = None, headquarters = None\<rparr>"

definition essential_fields :: "JobPosting \<Rightarrow> string option list" where
  "essential_fields j =
     [title j, company j, location j, date_posted j, job_link j, description j]"

definition is_empty :: "JobPosting \<Rightarrow> bool" where
  "is_empty j = list_all (\<lambda>field. field = None) (essential_fields j)"

text \<open>
  A \<open>DataFrame\<close> of job postings is the list of its rows; \<open>df.empty\<close> is true when there
  is no row, and \<open>df['title'].isnull().all()\<close> when no row has a title.
\<close>

type_synonym jobs_df = "JobPosting list"

definition df_empty :: "'a list \<Rightarrow> bool" where
  "df_empty df = (df = [])"

definition title_isnull_all :: "jobs_df \<Rightarrow> bool" where
  "title_isnull_all df = list_all (\<lambda>j. title j = None) df"

section \<open>The world as the program sees it\<close>

record count_row =
  City :: string
  h24_Jobs :: "int option"
  Week_Jobs :: "int option"
  Month_Jobs :: "int option"
  Total_Jobs :: "int option"
  Date :: string

text \<open>
  \<open>requests\<close> lists the HTTP attempts made so far and \<open>sleeps\<close> the arguments of the
  \<open>time.sleep\<close> calls, both oldest first. \<open>page_fetches\<close> is the trace of the calls of
  \<open>get_job_list\<close>: the position asked for and the table returned. The two file stores
  hold the CSV files, by path, as the tables they encode: the per-city job files and the
  \<open>TotalJobs.csv\<close> time series.
\<close>

record world =
  requests :: "request list"
  sleeps :: "int list"
  page_fetches :: "(int \<times> jobs_df) list"
  job_files :: "string \<rightharpoonup> jobs_df"
  count_files :: "string \<rightharpoonup> count_row list"

section \<open>utils/request\_handler.py\<close>

record RequestHandler =
  max_retries :: int
  base_delay :: int
  rate_limit_delay :: int
  headers :: "string \<rightharpoonup> string"

text \<open>\<open>RequestHandler()\<close> with the default arguments.\<close>

definition default_handler :: RequestHandler where
  "default_handler =
     \<lparr>max_retries = 5, base_delay = 5, rate_limit_delay = 15, headers = Map.empty\<rparr>"

text \<open>\<open>time.sleep\<close> raises \<open>ValueError\<close> for a negative duration.\<close>

definition time_sleep :: "int \<Rightarrow> world \<Rightarrow> (error + unit) \<times> world" where
  "time_sleep delay w =
     (if delay < 0 then (Inl ValueError, w)
      else (Inr (), w\<lparr>sleeps := sleeps w @ [delay]\<rparr>))"

text \<open>
  The result of \<open>handle_response\<close> is \<open>True\<close>, \<open>False\<close> or \<open>None\<close>: \<open>Some True\<close>,
  \<open>Some False\<close> and \<open>None\<close> here.
\<close>

definition handle_response ::
  "RequestHandler \<Rightarrow> response \<Rightarrow> int \<Rightarrow> world \<Rightarrow> (error + bool option) \<times> world" where
  "handle_response self r current_trial w =
     (if status_code r = 200 then (Inr (Some True), w)
      else if current_trial < max_retries self then
        (let delay = (if status_code r = 429 then rate_limit_delay self * current_trial
                      else base_delay self * current_trial)
         in case time_sleep delay w of
              (Inl e, w') \<Rightarrow> (Inl e, w')
            | (Inr _, w') \<Rightarrow> (Inr (Some False), w'))
      else (Inr None, w))"

definition build_request ::
  "RequestHandler \<Rightarrow> string \<Rightarrow> http_method \<Rightarrow> (string \<rightharpoonup> string) option \<Rightarrow>
   (string \<rightharpoonup> string) option \<Rightarrow> request" where
  "build_request self url method hdrs data =
     \<lparr>req_url = url, req_method = method,
      req_headers = (case hdrs of None \<Rightarrow> headers self | Some h \<Rightarrow> headers self ++ h),
      req_data = (if method = POST then data else None)\<rparr>"

definition session_send :: "network \<Rightarrow> request \<Rightarrow> world \<Rightarrow> outcome \<times> world" where
  "session_send net rq w = (net (length (requests w)) rq, w\<lparr>requests := requests w @ [rq]\<rparr>)"

lemma handle_response_retry:
  "handle_response self r t w = (Inr (Some False), w') \<Longrightarrow> t < max_retries self"
  by (auto simp: handle_response_def Let_def split: if_splits prod.splits sum.splits)

function make_request ::
  "RequestHandler \<Rightarrow> network \<Rightarrow> string \<Rightarrow> http_method \<Rightarrow> (string \<rightharpoonup> string) option \<Rightarrow>
   (string \<rightharpoonup> string) option \<Rightarrow> int \<Rightarrow> world \<Rightarrow> (error + response option) \<times> world" where
  "make_request self net url method hdrs data current_trial w =
     (if method = Unsupported then (Inl ValueError, w)
      else
        (case session_send net (build_request self url method hdrs data) w of
           (Responded r, w1) \<Rightarrow>
             (case handle_response self r current_trial w1 of
                (Inl e, w2) \<Rightarrow> (Inl e, w2)
              | (Inr result, w2) \<Rightarrow>
                  if result = Some True then (Inr (Some r), w2)
                  else if result = Some False then
                    make_request self net url method hdrs data (current_trial + 1) w2
                  else (Inr None, w2))
         | (RequestException, w1) \<Rightarrow>
             if current_trial < max_retries self then
               (case time_sleep (base_delay self * current_trial) w1 of
                  (Inl e, w2) \<Rightarrow> (Inl e, w2)
                | (Inr _, w2) \<Rightarrow>
                    make_request self net url method hdrs data (current_trial + 1) w2)
             else (Inr None, w1)))"
  by pat_completeness auto
termination
  by (relation "measure (\<lambda>(self, net, url, method, hdrs, data, t, w). nat (max_retries self - t))")
     (auto dest: handle_response_retry [OF sym])

declare make_request.simps [simp del]

definition get ::
  "RequestHandler \<Rightarrow> network \<Rightarrow> string \<Rightarrow> (string \<rightharpoonup> string) option \<Rightarrow> world \<Rightarrow>
   (error + response option) \<times> world" where
  "get self net url hdrs w = make_request self net url GET hdrs None 0 w"

definition post ::
  "RequestHandler \<Rightarrow> network \<Rightarrow> string \<Rightarrow> (string \<rightharpoonup> string) option \<Rightarrow>
   (string \<rightharpoonup> string) option \<Rightarrow> world \<Rightarrow> (error + response option) \<times> world" where
  "post self net url data hdrs w = make_request self net url POST hdrs data 0 w"

section \<open>The HTML and text libraries\<close>

text \<open>
  BeautifulSoup, \<open>urllib.parse.quote\<close> and the one regular expression matched on the
  posting page are libraries outside the repository. They are parameters of the model:
  each field below is one lookup the scrapers make on the text of a page, with \<open>None\<close>
  for an element or attribute that is not there.
  \<^item> \<open>label_text page id\<close>: \<open>soup.find('label', {'for': id})\<close>, then \<open>get_text(strip=True)\<close>;
  \<^item> \<open>job_cards page\<close>: one entry for each \<open>base-search-card__info\<close> element, the five
    fields read from it by the body of the \<open>try\<close>, or \<open>Raised\<close> when the body raises;
  \<^item> \<open>company_info page\<close>: one entry for each information block of a company page,
    the texts of its \<open>dt\<close> and \<open>dd\<close> when both are there; \<open>str_lower\<close> is \<open>str.lower\<close>;
  \<^item> the remaining fields are the lookups of \<open>JobDetailsScraper._parse_response\<close>.
\<close>

datatype card =
  Extracted "string option" "string option" "string option" "string option" "string option"
  | Raised

record libraries =
  url_quote :: "string \<Rightarrow> string"
  label_text :: "string \<Rightarrow> string \<Rightarrow> string option"
  job_cards :: "string \<Rightarrow> card list"
  job_criteria :: "string \<Rightarrow> string list"
  applicants_span :: "string \<Rightarrow> string option"
  applicants_figcaption :: "string \<Rightarrow> string option"
  meta_description :: "string \<Rightarrow> string option"
  posted_match :: "string \<Rightarrow> string option"
  description_markup :: "string \<Rightarrow> string option"
  nav_location :: "string \<Rightarrow> string option"
  org_link_href :: "string \<Rightarrow> string option"
  company_info :: "string \<Rightarrow> (string \<times> string) option list"
  str_lower :: "string \<Rightarrow> string"

text \<open>\<open>str\<close> of an integer, for the f-strings that print a position.\<close>

function str_nat :: "nat \<Rightarrow> string" where
  "str_nat n = (if n < 10 then [''0123456789'' ! n]
                else str_nat (n div 10) @ [''0123456789'' ! (n mod 10)])"
  by pat_completeness auto
termination
  by (relation "measure id") auto

declare str_nat.simps [simp del]

definition str_int :: "int \<Rightarrow> string" where
  "str_int i = (if i < 0 then ''-'' @ str_nat (nat (- i)) else str_nat (nat i))"

text \<open>
  \<open>re.findall(r'\d+', text)\<close>: the maximal runs of digits, left to right, and \<open>int\<close> of
  such a run. The digits are the ASCII digits, as in the counts the page prints.
\<close>

definition is_digit :: "char \<Rightarrow> bool" where
  "is_digit c = (c \<in> set ''0123456789'')"

fun digit_runs :: "string \<Rightarrow> string \<Rightarrow> string list" where
  "digit_runs cur [] = (if cur = [] then [] else [cur])"
| "digit_runs cur (c # cs) =
     (if is_digit c then digit_runs (cur @ [c]) cs
      else if cur = [] then digit_runs [] cs
      else cur # digit_runs [] cs)"

definition re_findall_digits :: "string \<Rightarrow> string list" where
  "re_findall_digits s = digit_runs [] s"

definition int_of_digits :: "string \<Rightarrow> int" where
  "int_of_digits s = foldl (\<lambda>a c. 10 * a + (int (of_char c) - 48)) 0 s"

text \<open>\<open>range(start, stop, step)\<close> for a positive step, the only kind the scraper uses.\<close>

function py_range :: "int \<Rightarrow> int \<Rightarrow> int \<Rightarrow> int list" where
  "py_range start stop step =
     (if 0 < step \<and> start < stop then start # py_range (start + step) stop step else [])"
  by pat_completeness auto
termination
  by (relation "measure (\<lambda>(start, stop, step). nat (stop - start))") auto

declare py_range.simps [simp del]

section \<open>scrapers/job\_list\_scraper.py\<close>

text \<open>
  A scraper object holds its request handler and its default headers. The literal header
  values set by the constructors are not spelled out: \<open>scraper_headers\<close> stands for them.
\<close>

record Scraper =
  request_handler :: RequestHandler
  scraper_headers :: "string \<rightharpoonup> string"

definition build_search_url :: "libraries \<Rightarrow> string \<Rightarrow> string \<Rightarrow> int \<Rightarrow> string" where
  "build_search_url L job_title loc position =
     (let encoded_job_title = url_quote L job_title in
      if position = 0 then
        ''https://www.linkedin.com/jobs/search?keywords='' @ encoded_job_title @
        ''&location='' @ loc @
        ''&trk=public_jobs_jobs-search-bar_search-submit&position=0&pageNum=0''
      else
        ''https://www.linkedin.com/jobs-guest/jobs/api/seeMoreJobPostings/search?keywords='' @
        encoded_job_title @ ''&location='' @ loc @
        ''&trk=public_jobs_jobs-search-bar_search-submit&position=1&pageNum=0&start='' @
        str_int position)"

text \<open>The table with the single all-absent row that stands for "nothing found".\<close>

definition sentinel_df :: jobs_df where
  "sentinel_df = [new_JobPosting None None]"

definition job_of_card :: "card \<Rightarrow> JobPosting option" where
  "job_of_card c =
     (case c of
        Raised \<Rightarrow> None
      | Extracted t co lo dp jl \<Rightarrow>
          Some ((new_JobPosting t jl)\<lparr>company := co, location := lo, date_posted := dp\<rparr>))"

definition parse_jobs :: "libraries \<Rightarrow> string \<Rightarrow> jobs_df" where
  "parse_jobs L response_text =
     (let job_postings = job_cards L response_text in
      if job_postings = [] then sentinel_df
      else List.map_filter job_of_card job_postings)"

definition extract_count :: "string option \<Rightarrow> int" where
  "extract_count elem =
     (case elem of
        None \<Rightarrow> 0
      | Some txt \<Rightarrow>
          (let numbers = re_findall_digits txt in
           if numbers \<noteq> [] then int_of_digits (last numbers) else 0))"

definition parse_total_jobs :: "libraries \<Rightarrow> string \<Rightarrow> int list" where
  "parse_total_jobs L response_text =
     (let total_elem = label_text L response_text ''f_TPR-0'';
          past_month_elem = label_text L response_text ''f_TPR-1'';
          past_week_elem = label_text L response_text ''f_TPR-2'';
          past_24h_elem = label_text L response_text ''f_TPR-3''
      in [extract_count total_elem, extract_count past_month_elem,
          extract_count past_week_elem, extract_count past_24h_elem])"

definition get_total_jobs ::
  "Scraper \<Rightarrow> libraries \<Rightarrow> network \<Rightarrow> string \<Rightarrow> string \<Rightarrow> world \<Rightarrow>
   (error + int option list) \<times> world" where
  "get_total_jobs self L net job_title loc w =
     (let url = build_search_url L job_title loc 0 in
      case get (request_handler self) net url (Some (scraper_headers self)) w of
        (Inl e, w1) \<Rightarrow> (Inl e, w1)
      | (Inr None, w1) \<Rightarrow> (Inr [None, None, None, None], w1)
      | (Inr (Some r), w1) \<Rightarrow> (Inr (map Some (parse_total_jobs L (resp_text r))), w1))"

text \<open>
  \<open>get_job_list\<close> also records its call in the trace \<open>page_fetches\<close>: the position and
  the table it returns.
\<close>

definition fetched :: "world \<Rightarrow> int \<Rightarrow> jobs_df \<Rightarrow> world" where
  "fetched w position df = w\<lparr>page_fetches := page_fetches w @ [(position, df)]\<rparr>"

definition get_job_list ::
  "Scraper \<Rightarrow> libraries \<Rightarrow> network \<Rightarrow> string \<Rightarrow> string \<Rightarrow> int \<Rightarrow> world \<Rightarrow>
   (error + jobs_df) \<times> world" where
  "get_job_list self L net job_title loc position w =
     (let url = build_search_url L job_title loc position in
      case get (request_handler self) net url (Some (scraper_headers self)) w of
        (Inl e, w1) \<Rightarrow> (Inl e, w1)
      | (Inr None, w1) \<Rightarrow> (Inr sentinel_df, fetched w1 position sentinel_df)
      | (Inr (Some r), w1) \<Rightarrow>
          (let df = parse_jobs L (resp_text r) in (Inr df, fetched w1 position df)))"

section \<open>scrapers/job\_details\_scraper.py\<close>

text \<open>One row of the table \<open>_parse_response\<close> builds, with its nine columns.\<close>

record details_row =
  d_location :: "string option"
  d_seniority_level :: "string option"
  d_employment_type :: "string option"
  d_job_function :: "string option"
  d_industries :: "string option"
  d_applicants :: "string option"
  d_description :: "string option"
  d_time_posted :: "string option"
  d_company_url :: "string option"

definition nth_opt :: "'a list \<Rightarrow> nat \<Rightarrow> 'a option" where
  "nth_opt xs n = (if length xs > n then Some (xs ! n) else None)"

definition parse_response :: "libraries \<Rightarrow> string \<Rightarrow> details_row list" where
  "parse_response L response_text =
     (let criteria = job_criteria L response_text;
          applicants_elem =
            (case applicants_span L response_text of
               None \<Rightarrow> applicants_figcaption L response_text
             | Some a \<Rightarrow> Some a);
          time_posted =
            (case meta_description L response_text of
               None \<Rightarrow> None
             | Some content \<Rightarrow> if content = [] then None else posted_match L content);
          description =
            (case description_markup L response_text of
               None \<Rightarrow> None
             | Some d \<Rightarrow> Some (filter (\<lambda>c. c \<noteq> CHR 0x0A) d))
      in [\<lparr>d_location = nav_location L response_text,
           d_seniority_level = nth_opt criteria 0,
           d_employment_type = nth_opt criteria 1,
           d_job_function = nth_opt criteria 2,
           d_industries = nth_opt criteria 3,
           d_applicants = applicants_elem,
           d_description = description,
           d_time_posted = time_posted,
           d_company_url = org_link_href L response_text\<rparr>])"

definition get_job_details ::
  "Scraper \<Rightarrow> libraries \<Rightarrow> network \<Rightarrow> string \<Rightarrow> world \<Rightarrow>
   (error + details_row list) \<times> world" where
  "get_job_details self L net job_url w =
     (case get (request_handler self) net job_url (Some (scraper_headers self)) w of
        (Inl e, w1) \<Rightarrow> (Inl e, w1)
      | (Inr None, w1) \<Rightarrow> (Inr [], w1)
      | (Inr (Some r), w1) \<Rightarrow> (Inr (parse_response L (resp_text r)), w1))"

section \<open>scrapers/company\_details\_scraper.py\<close>

text \<open>
  The dictionary \<open>data\<close> of \<open>_parse_response\<close> is the list of its items in insertion
  order, and a table of company details is the list of its rows, each such a dictionary:
  \<open>pd.DataFrame()\<close> has no row, \<open>pd.DataFrame([data])\<close> has the one row \<open>data\<close> and the
  keys of \<open>data\<close> as columns. A table is \<open>empty\<close> when it has no row or no column.
\<close>

type_synonym company_df = "(string \<times> string) list list"

fun dict_set :: "(string \<times> string) list \<Rightarrow> string \<Rightarrow> string \<Rightarrow> (string \<times> string) list" where
  "dict_set [] k v = [(k, v)]"
| "dict_set ((k', v') # d) k v = (if k' = k then (k, v) # d else (k', v') # dict_set d k v)"

definition company_df_empty :: "company_df \<Rightarrow> bool" where
  "company_df_empty df = (df = [] \<or> list_all (\<lambda>row. row = []) df)"

definition normalized_key :: "libraries \<Rightarrow> string \<Rightarrow> string" where
  "normalized_key L key = str_lower L (map (\<lambda>c. if c = CHR '' '' then CHR ''_'' else c) key)"

definition parse_company_response :: "libraries \<Rightarrow> string \<Rightarrow> company_df" where
  "parse_company_response L response_text =
     (let data =
            fold (\<lambda>element data.
                    case element of
                      None \<Rightarrow> data
                    | Some (key, val) \<Rightarrow> dict_set data (normalized_key L key) val)
              (company_info L response_text) []
      in [data])"

definition get_company_details ::
  "Scraper \<Rightarrow> libraries \<Rightarrow> network \<Rightarrow> string \<Rightarrow> world \<Rightarrow> (error + company_df) \<times> world" where
  "get_company_details self L net url w =
     (case get (request_handler self) net url (Some (scraper_headers self)) w of
        (Inl e, w1) \<Rightarrow> (Inl e, w1)
      | (Inr None, w1) \<Rightarrow> (Inr [], w1)
      | (Inr (Some r), w1) \<Rightarrow> (Inr (parse_company_response L (resp_text r)), w1))"

section \<open>scrapers/linkedin\_scraper.py\<close>

record LinkedInScraper =
  data_dir :: string
  job_list_scraper :: Scraper
  job_details_scraper :: Scraper
  company_details_scraper :: Scraper

text \<open>
  The constructor makes one \<open>RequestHandler()\<close> with the default arguments and gives it
  to the three scrapers.
\<close>

definition new_LinkedInScraper ::
  "string \<Rightarrow> (string \<rightharpoonup> string) \<Rightarrow> (string \<rightharpoonup> string) \<Rightarrow> (string \<rightharpoonup> string) \<Rightarrow>
   LinkedInScraper" where
  "new_LinkedInScraper dir list_headers details_headers company_headers =
     \<lparr>data_dir = dir,
      job_list_scraper = \<lparr>request_handler = default_handler, scraper_headers = list_headers\<rparr>,
      job_details_scraper =
        \<lparr>request_handler = default_handler, scraper_headers = details_headers\<rparr>,
      company_details_scraper =
        \<lparr>request_handler = default_handler, scraper_headers = company_headers\<rparr>\<rparr>"

text \<open>
  The pagination loop of \<open>scrape_all_jobs\<close> over the positions of
  \<open>range(60, actual_limit, 10)\<close>; \<open>break\<close> leaves it with the table gathered so far.
\<close>

fun paginate ::
  "LinkedInScraper \<Rightarrow> libraries \<Rightarrow> network \<Rightarrow> string \<Rightarrow> string \<Rightarrow> int list \<Rightarrow> jobs_df \<Rightarrow>
   world \<Rightarrow> (error + jobs_df) \<times> world" where
  "paginate self L net job_title loc [] jobs_df w = (Inr jobs_df, w)"
| "paginate self L net job_title loc (position # rest) jobs_df w =
     (case get_job_list (job_list_scraper self) L net job_title loc position w of
        (Inl e, w1) \<Rightarrow> (Inl e, w1)
      | (Inr new_jobs, w1) \<Rightarrow>
          if df_empty new_jobs \<or> title_isnull_all new_jobs then (Inr jobs_df, w1)
          else paginate self L net job_title loc rest (jobs_df @ new_jobs) w1)"

definition jobs_file_path :: "LinkedInScraper \<Rightarrow> string \<Rightarrow> string \<Rightarrow> string" where
  "jobs_file_path self job_title loc =
     data_dir self @ ''/'' @ job_title @ ''/'' @ job_title @ '' in '' @ loc @ ''.csv''"

text \<open>
  \<open>scrape_all_jobs\<close> returns \<open>(None, None)\<close> or a table with the path of its file:
  \<open>None\<close> or \<open>Some (table, path)\<close> here.
\<close>

definition scrape_all_jobs ::
  "LinkedInScraper \<Rightarrow> libraries \<Rightarrow> network \<Rightarrow> string \<Rightarrow> string \<Rightarrow> int \<Rightarrow> world \<Rightarrow>
   (error + (jobs_df \<times> string) option) \<times> world" where
  "scrape_all_jobs self L net job_title loc limit w =
     (case get_total_jobs (job_list_scraper self) L net job_title loc w of
        (Inl e, w1) \<Rightarrow> (Inl e, w1)
      | (Inr total_jobs, w1) \<Rightarrow>
          (case nth_opt total_jobs 0 of
             None \<Rightarrow> (Inl IndexError, w1)
           | Some None \<Rightarrow> (Inr None, w1)
           | Some (Some total0) \<Rightarrow>
               (let actual_limit = min total0 limit in
                case get_job_list (job_list_scraper self) L net job_title loc 0 w1 of
                  (Inl e, w2) \<Rightarrow> (Inl e, w2)
                | (Inr jobs_df, w2) \<Rightarrow>
                    if df_empty jobs_df then (Inr None, w2)
                    else
                      (case paginate self L net job_title loc (py_range 60 actual_limit 10)
                              jobs_df w2 of
                         (Inl e, w3) \<Rightarrow> (Inl e, w3)
                       | (Inr all_jobs, w3) \<Rightarrow>
                           (let file_path = jobs_file_path self job_title loc in
                            (Inr (Some (all_jobs, file_path)),
                             w3\<lparr>job_files := (job_files w3)(file_path \<mapsto> all_jobs)\<rparr>))))))"

text \<open>
  The row \<open>scrape_all_job_details\<close> appends for a posting whose details were fetched:
  the five listing fields of the input row and eight fields of the first details row.
\<close>

definition with_details :: "JobPosting \<Rightarrow> details_row \<Rightarrow> JobPosting" where
  "with_details row d =
     (new_JobPosting (title row) (job_link row))
       \<lparr>company := company row, location := location row, date_posted := date_posted row,
        description := d_description d, time_posted := d_time_posted d,
        seniority_level := d_seniority_level d, employment_type := d_employment_type d,
        job_function := d_job_function d, industries := d_industries d,
        applicants := d_applicants d, company_url := d_company_url d\<rparr>"

fun details_loop ::
  "LinkedInScraper \<Rightarrow> libraries \<Rightarrow> network \<Rightarrow> jobs_df \<Rightarrow> jobs_df \<Rightarrow> world \<Rightarrow>
   (error + jobs_df) \<times> world" where
  "details_loop self L net [] jobs_with_details w = (Inr jobs_with_details, w)"
| "details_loop self L net (row # rows) jobs_with_details w =
     (case job_link row of
        None \<Rightarrow> details_loop self L net rows jobs_with_details w
      | Some job_url \<Rightarrow>
          (case get_job_details (job_details_scraper self) L net job_url w of
             (Inl e, w1) \<Rightarrow> (Inl e, w1)
           | (Inr job_details, w1) \<Rightarrow>
               (case job_details of
                  [] \<Rightarrow> details_loop self L net rows jobs_with_details w1
                | d # _ \<Rightarrow>
                    details_loop self L net rows (jobs_with_details @ [with_details row d]) w1)))"

definition scrape_all_job_details ::
  "LinkedInScraper \<Rightarrow> libraries \<Rightarrow> network \<Rightarrow> string \<Rightarrow> world \<Rightarrow>
   (error + jobs_df \<times> string) \<times> world" where
  "scrape_all_job_details self L net file_path w =
     (case job_files w file_path of
        None \<Rightarrow> (Inl FileNotFoundError, w)
      | Some df \<Rightarrow>
          (case details_loop self L net df [] w of
             (Inl e, w1) \<Rightarrow> (Inl e, w1)
           | (Inr result_df, w1) \<Rightarrow>
               (Inr (result_df, file_path),
                w1\<lparr>job_files := (job_files w1)(file_path \<mapsto> result_df)\<rparr>)))"

text \<open>
  \<open>scrape_all_company_details\<close>, the second enrichment pass. The row it appends has
  the thirteen fields of the input row and five fields read from the columns of the
  company table, absent where the column is missing.
\<close>

definition column_value :: "company_df \<Rightarrow> string \<Rightarrow> string option" where
  "column_value df column = (case df of [] \<Rightarrow> None | row # _ \<Rightarrow> map_of row column)"

definition with_company :: "JobPosting \<Rightarrow> company_df \<Rightarrow> JobPosting" where
  "with_company row company_details =
     row\<lparr>company_size := column_value company_details ''company_size'',
         founded := column_value company_details ''founded'',
         company_type := column_value company_details ''type'',
         industry := column_value company_details ''industry'',
         headquarters := column_value company_details ''headquarters''\<rparr>"

fun company_loop ::
  "LinkedInScraper \<Rightarrow> libraries \<Rightarrow> network \<Rightarrow> jobs_df \<Rightarrow> jobs_df \<Rightarrow> world \<Rightarrow>
   (error + jobs_df) \<times> world" where
  "company_loop self L net [] jobs_with_company_details w = (Inr jobs_with_company_details, w)"
| "company_loop self L net (row # rows) jobs_with_company_details w =
     (case company_url row of
        None \<Rightarrow> company_loop self L net rows jobs_with_company_details w
      | Some url \<Rightarrow>
          (case get_company_details (company_details_scraper self) L net url w of
             (Inl e, w1) \<Rightarrow> (Inl e, w1)
           | (Inr company_details, w1) \<Rightarrow>
               if company_df_empty company_details then
                 company_loop self L net rows jobs_with_company_details w1
               else
                 company_loop self L net rows
                   (jobs_with_company_details @ [with_company row company_details]) w1))"

definition scrape_all_company_details ::
  "LinkedInScraper \<Rightarrow> libraries \<Rightarrow> network \<Rightarrow> string \<Rightarrow> world \<Rightarrow>
   (error + jobs_df \<times> string) \<times> world" where
  "scrape_all_company_details self L net file_path w =
     (case job_files w file_path of
        None \<Rightarrow> (Inl FileNotFoundError, w)
      | Some df \<Rightarrow>
          (case company_loop self L net df [] w of
             (Inl e, w1) \<Rightarrow> (Inl e, w1)
           | (Inr result_df, w1) \<Rightarrow>
               (Inr (result_df, file_path),
                w1\<lparr>job_files := (job_files w1)(file_path \<mapsto> result_df)\<rparr>)))"

section \<open>config/settings.py\<close>

definition DEFAULT_CITIES :: "string list" where
  "DEFAULT_CITIES = [''Ottawa'', ''Toronto'', ''Montreal'', ''Vancouver'', ''Calgary'', ''Edmonton'']"

section \<open>core/orchestrator.py\<close>

record ScrapingOrchestrator =
  orch_data_dir :: string
  linkedin_scraper :: LinkedInScraper
  orch_job_list_scraper :: Scraper

text \<open>
  The constructor builds a \<open>LinkedInScraper\<close> on the same directory and a
  \<open>JobListScraper()\<close> of its own, which makes its own default \<open>RequestHandler()\<close>.
\<close>

definition new_ScrapingOrchestrator ::
  "string \<Rightarrow> (string \<rightharpoonup> string) \<Rightarrow> (string \<rightharpoonup> string) \<Rightarrow> (string \<rightharpoonup> string) \<Rightarrow>
   ScrapingOrchestrator" where
  "new_ScrapingOrchestrator dir list_headers details_headers company_headers =
     \<lparr>orch_data_dir = dir,
      linkedin_scraper = new_LinkedInScraper dir list_headers details_headers company_headers,
      orch_job_list_scraper =
        \<lparr>request_handler = default_handler, scraper_headers = list_headers\<rparr>\<rparr>"

text \<open>
  The loop of \<open>create_city_comparison\<close> over the cities: \<open>return None\<close> inside it is the
  result \<open>None\<close>, and running to the end gives the list \<open>total_jobs\<close>.
\<close>

fun collect_counts ::
  "Scraper \<Rightarrow> libraries \<Rightarrow> network \<Rightarrow> string \<Rightarrow> string list \<Rightarrow> int option list list \<Rightarrow>
   world \<Rightarrow> (error + int option list list option) \<times> world" where
  "collect_counts sc L net job_title [] total_jobs w = (Inr (Some total_jobs), w)"
| "collect_counts sc L net job_title (city # cities) total_jobs w =
     (case get_total_jobs sc L net job_title city w of
        (Inl e, w1) \<Rightarrow> (Inl e, w1)
      | (Inr result, w1) \<Rightarrow>
          if result = [None, None, None, None] then (Inr None, w1)
          else collect_counts sc L net job_title cities (total_jobs @ [result]) w1)"

definition comparison_rows :: "string \<Rightarrow> string list \<Rightarrow> int option list list \<Rightarrow> count_row list" where
  "comparison_rows today cities total_jobs =
     map (\<lambda>(city, x). \<lparr>City = city, h24_Jobs = x ! 3, Week_Jobs = x ! 2, Month_Jobs = x ! 1,
                        Total_Jobs = x ! 0, Date = today\<rparr>)
       (zip cities total_jobs)"

definition total_jobs_file :: "string \<Rightarrow> string \<Rightarrow> string" where
  "total_jobs_file dir job_title = dir @ ''/'' @ job_title @ ''/TotalJobs'' @ ''/TotalJobs.csv''"

text \<open>
  \<open>today\<close> is \<open>datetime.datetime.now().strftime('%Y-%m-%d')\<close>. The result is \<open>None\<close>
  or the table that was written. An existing file that cannot be read counts as no file,
  \<open>sort_values(by='Date')\<close> is the insertion sort of the library, and the directories
  the function creates are not part of the file stores.
\<close>

definition create_city_comparison ::
  "ScrapingOrchestrator \<Rightarrow> libraries \<Rightarrow> network \<Rightarrow> string \<Rightarrow> string \<Rightarrow> string list option \<Rightarrow>
   world \<Rightarrow> (error + count_row list option) \<times> world" where
  "create_city_comparison self L net today job_title cities_arg w =
     (let cities = (case cities_arg of None \<Rightarrow> DEFAULT_CITIES | Some cs \<Rightarrow> cs) in
      case collect_counts (orch_job_list_scraper self) L net job_title cities [] w of
        (Inl e, w1) \<Rightarrow> (Inl e, w1)
      | (Inr None, w1) \<Rightarrow> (Inr None, w1)
      | (Inr (Some total_jobs), w1) \<Rightarrow>
          (let new_rows = comparison_rows today cities total_jobs;
               file = total_jobs_file (orch_data_dir self) job_title;
               df = (case count_files w1 file of
                       None \<Rightarrow> new_rows
                     | Some existing_df \<Rightarrow> existing_df @ new_rows);
               sorted_df = sort_key Date df
           in (Inr (Some sorted_df), w1\<lparr>count_files := (count_files w1)(file \<mapsto> sorted_df)\<rparr>)))"

section \<open>dashboard/dashboard\_functions.py\<close>

text \<open>\<open>JOB_DATE_OPTIONS\<close> names a column of the time series; here it gives the column.\<close>

definition JOB_DATE_OPTIONS :: "string \<rightharpoonup> (count_row \<Rightarrow> int option)" where
  "JOB_DATE_OPTIONS =
     map_of [(''Last 24h'', h24_Jobs), (''Last Week'', Week_Jobs),
             (''Last Month'', Month_Jobs), (''Total'', Total_Jobs)]"

text \<open>
  A row of \<open>df[['Date', 'City', column_name]]\<close> with the column renamed to
  \<open>Total_Jobs\<close>, and a row of the table that is returned, where \<open>Total_Jobs\<close> and
  \<open>delta\<close> are integers.
\<close>

record series_row =
  s_Date :: string
  s_City :: string
  s_Total_Jobs :: "int option"

record latest_row =
  l_Date :: string
  l_City :: string
  l_Total_Jobs :: int
  l_delta :: int

definition select_columns :: "(count_row \<Rightarrow> int option) \<Rightarrow> count_row list \<Rightarrow> series_row list" where
  "select_columns column df =
     map (\<lambda>r. \<lparr>s_Date = Date r, s_City = City r, s_Total_Jobs = column r\<rparr>) df"

text \<open>
  \<open>sort_values(by='Date')\<close> is modelled by the insertion sort of the library, the
  descending one by its reverse. Strings are compared as Python compares them, character
  by character. pandas does not fix the order of rows with equal dates; the order chosen
  here only shows in the \<open>delta\<close> of such rows.
\<close>

definition sort_values_Date :: "bool \<Rightarrow> series_row list \<Rightarrow> series_row list" where
  "sort_values_Date ascending df =
     (if ascending then sort_key s_Date df else rev (sort_key s_Date df))"

text \<open>
  \<open>df.groupby('City').apply(lambda x: x.sort_values(by='Date')).reset_index(drop=True)\<close>:
  the groups in the order of their keys, each sorted by date.
\<close>

definition groupby_City_sorted :: "series_row list \<Rightarrow> series_row list" where
  "groupby_City_sorted df =
     concat (map (\<lambda>c. sort_values_Date True (filter (\<lambda>r. s_City r = c) df))
               (sort (remdups (map s_City df))))"

text \<open>
  \<open>df.groupby('City')['Total_Jobs'].diff()\<close>: for each row the difference to the previous
  row of the same city, absent for the first row of a city or when a value is absent.
  \<open>prev\<close> holds the value of the last row seen for each city.
\<close>

fun groupby_diff :: "(string \<rightharpoonup> int option) \<Rightarrow> series_row list \<Rightarrow> int option list" where
  "groupby_diff prev [] = []"
| "groupby_diff prev (r # rs) =
     (case prev (s_City r) of
        None \<Rightarrow> None
      | Some p \<Rightarrow>
          (case (s_Total_Jobs r, p) of
             (Some a, Some b) \<Rightarrow> Some (a - b)
           | _ \<Rightarrow> None))
     # groupby_diff (prev(s_City r \<mapsto> s_Total_Jobs r)) rs"

definition fillna0 :: "int option \<Rightarrow> int" where
  "fillna0 v = (case v of None \<Rightarrow> 0 | Some i \<Rightarrow> i)"

definition with_delta :: "series_row list \<Rightarrow> latest_row list" where
  "with_delta df =
     map (\<lambda>(r, d). \<lparr>l_Date = s_Date r, l_City = s_City r,
                      l_Total_Jobs = fillna0 (s_Total_Jobs r), l_delta = fillna0 d\<rparr>)
       (zip df (groupby_diff Map.empty df))"

text \<open>\<open>df['Date'].max()\<close>, absent for a table without rows.\<close>

definition Date_max :: "latest_row list \<Rightarrow> string option" where
  "Date_max df = (case df of [] \<Rightarrow> None | r # rs \<Rightarrow> Some (fold max (map l_Date rs) (l_Date r)))"

definition find_latest_jobs_cities ::
  "string \<Rightarrow> string \<Rightarrow> string option \<Rightarrow> world \<Rightarrow> error + latest_row list" where
  "find_latest_jobs_cities job_search job_date data_dir_arg w =
     (let dir = (case data_dir_arg of None \<Rightarrow> ''data/raw/JobData'' | Some d \<Rightarrow> d);
          csv_path = total_jobs_file dir job_search
      in case count_files w csv_path of
           None \<Rightarrow> Inl FileNotFoundError
         | Some df \<Rightarrow>
             (case JOB_DATE_OPTIONS job_date of
                None \<Rightarrow> Inl ValueError
              | Some column \<Rightarrow>
                  (let selected = select_columns column df;
                       sorted_desc = sort_values_Date False selected;
                       grouped = groupby_City_sorted sorted_desc;
                       with_d = with_delta grouped
                   in Inr (filter (\<lambda>r. Some (l_Date r) = Date_max with_d) with_d))))"

section \<open>Auxiliary notions for the statements\<close>

text \<open>The test that ends the pagination loop.\<close>

definition stop_page :: "jobs_df \<Rightarrow> bool" where
  "stop_page df = (df_empty df \<or> title_isnull_all df)"

text \<open>The world after one more HTTP attempt, and after one more sleep.\<close>

definition sent :: "world \<Rightarrow> request \<Rightarrow> world" where
  "sent w rq = w\<lparr>requests := requests w @ [rq]\<rparr>"

definition slept :: "world \<Rightarrow> int \<Rightarrow> world" where
  "slept w d = w\<lparr>sleeps := sleeps w @ [d]\<rparr>"

text \<open>The world before the program has done anything, with no file on disk.\<close>

definition empty_world :: world where
  "empty_world =
     \<lparr>requests = [], sleeps = [], page_fetches = [], job_files = Map.empty,
      count_files = Map.empty\<rparr>"

section \<open>A small concrete run\<close>

text \<open>
  Concrete libraries, networks and scrapers on which the statements below are evaluated.
  The pages are named by their text: \<open>search75\<close> and \<open>search200\<close> print a total of
  75 and 200 jobs, \<open>empty\<close> holds no posting, and every other page holds one posting.
  No page but \<open>acme\<close> holds company information, and no page holds any of the
  details of a posting.
\<close>

definition example_card :: card where
  "example_card =
     Extracted (Some ''Developer'') (Some ''Acme'') (Some ''Ottawa'') (Some ''1 day ago'')
       (Some ''https://www.linkedin.com/jobs/view/1'')"

definition ascii_lower :: "char \<Rightarrow> char" where
  "ascii_lower c =
     (case map_of (zip ''ABCDEFGHIJKLMNOPQRSTUVWXYZ'' ''abcdefghijklmnopqrstuvwxyz'') c of
        None \<Rightarrow> c
      | Some l \<Rightarrow> l)"

definition example_libraries :: libraries where
  "example_libraries =
     \<lparr>url_quote = (\<lambda>s. s),
      label_text = (\<lambda>page label.
        if label = ''f_TPR-0'' \<and> page = ''search75'' then Some ''Any time (75)''
        else if label = ''f_TPR-0'' \<and> page = ''search200'' then Some ''Any time (200)''
        else None),
      job_cards = (\<lambda>page. if page = ''empty'' then [] else [example_card]),
      job_criteria = (\<lambda>page. []),
      applicants_span = (\<lambda>page. None),
      applicants_figcaption = (\<lambda>page. None),
      meta_description = (\<lambda>page. None),
      posted_match = (\<lambda>content. None),
      description_markup = (\<lambda>page. None),
      nav_location = (\<lambda>page. None),
      org_link_href = (\<lambda>page. None),
      company_info = (\<lambda>page.
        if page = ''acme'' then [Some (''Company size'', ''51-200 employees'')] else []),
      str_lower = map ascii_lower\<rparr>"

definition ok :: "string \<Rightarrow> outcome" where
  "ok page = Responded \<lparr>status_code = 200, resp_text = page\<rparr>"

definition example_scraper :: LinkedInScraper where
  "example_scraper = new_LinkedInScraper ''data/raw'' Map.empty Map.empty Map.empty"

definition net75 :: network where
  "net75 n rq = (if n = 0 then ok ''search75'' else ok ''more'')"

definition net200 :: network where
  "net200 n rq = (if n = 0 then ok ''search200'' else if n < 3 then ok ''more'' else ok ''empty'')"

definition example_job :: JobPosting where
  "example_job =
     (new_JobPosting (Some ''Developer'') (Some ''https://www.linkedin.com/jobs/view/1''))
       \<lparr>company := Some ''Acme'', location := Some ''Ottawa'', date_posted := Some ''1 day ago''\<rparr>"

definition search_request :: "int \<Rightarrow> request" where
  "search_request position =
     build_request default_handler
       (build_search_url example_libraries ''Developer'' ''Ottawa'' position) GET
       (Some Map.empty) None"

definition example_orchestrator :: ScrapingOrchestrator where
  "example_orchestrator = new_ScrapingOrchestrator ''data/raw/JobData'' Map.empty Map.empty Map.empty"

definition net503 :: network where
  "net503 n rq =
     (if n = 0 then ok ''search75'' else Responded \<lparr>status_code = 503, resp_text = ''busy''\<rparr>)"

definition old_row :: count_row where
  "old_row = \<lparr>City = ''Ottawa'', h24_Jobs = Some 1, Week_Jobs = Some 5, Month_Jobs = Some 20,
              Total_Jobs = Some 70, Date = ''2024-01-05''\<rparr>"

definition world_with_series :: world where
  "world_with_series =
     empty_world\<lparr>count_files :=
       [''data/raw/JobData/Developer/TotalJobs/TotalJobs.csv'' \<mapsto> [old_row]]\<rparr>"

definition example_job2 :: JobPosting where
  "example_job2 =
     (new_JobPosting (Some ''Tester'') (Some ''https://www.linkedin.com/jobs/view/2''))
       \<lparr>company := Some ''Acme'', location := Some ''Ottawa'', date_posted := Some ''2 days ago''\<rparr>"

definition no_details :: details_row where
  "no_details =
     \<lparr>d_location = None, d_seniority_level = None, d_employment_type = None,
      d_job_function = None, d_industries = None, d_applicants = None, d_description = None,
      d_time_posted = None, d_company_url = None\<rparr>"

definition world_with_jobs :: "jobs_df \<Rightarrow> world" where
  "world_with_jobs df = empty_world\<lparr>job_files := [''data/raw/Developer/Developer in Ottawa.csv'' \<mapsto> df]\<rparr>"

definition net_busy_then_ok :: network where
  "net_busy_then_ok n rq =
     (if n < 6 then Responded \<lparr>status_code = 503, resp_text = ''busy''\<rparr> else ok ''empty'')"

definition example_job3 :: JobPosting where
  "example_job3 = example_job\<lparr>company_url := Some ''https://www.linkedin.com/company/acme''\<rparr>"

definition example_series :: "count_row list" where
  "example_series =
     [\<lparr>City = ''Ottawa'', h24_Jobs = Some 1, Week_Jobs = Some 5, Month_Jobs = Some 20,
       Total_Jobs = Some 100, Date = ''2024-01-05''\<rparr>,
      \<lparr>City = ''Ottawa'', h24_Jobs = Some 2, Week_Jobs = Some 9, Month_Jobs = Some 30,
       Total_Jobs = Some 130, Date = ''2024-01-20''\<rparr>]"

definition world_with_counts :: "count_row list \<Rightarrow> world" where
  "world_with_counts df =
     empty_world\<lparr>count_files := [''data/raw/JobData/Developer/TotalJobs/TotalJobs.csv'' \<mapsto> df]\<rparr>"

section \<open>Properties of the job posting model\<close>

text \<open>
  C7. \<open>is_empty\<close> holds exactly when the six essential fields (title, company, location,
  date\_posted, job\_link, description) are all absent, so it is false as soon as one of
  them is present; the other twelve fields have no influence on it.
\<close>

theorem is_empty_iff:
  "(is_empty j \<longleftrightarrow>
      title j = None \<and> company j = None \<and> location j = None \<and> date_posted j = None \<and>
      job_link j = None \<and> description j = None) \<and>
   is_empty (j\<lparr>seniority_level := a1, employment_type := a2, job_function := a3,
                industries := a4, applicants := a5, company_url := a6, time_posted := a7,
                company_size := a8, founded := a9, company_type := a10, industry := a11,
                headquarters := a12\<rparr>) = is_empty j"
  by (simp add: is_empty_def essential_fields_def)

section \<open>Properties of the request handler\<close>

text \<open>
  One unfolding of \<open>make_request\<close>, with \<open>handle_response\<close> and \<open>time.sleep\<close> inlined:
  the form the proofs below work with.
\<close>

lemma make_request_unfold:
  "make_request self net url method hdrs data t w =
     (if method = Unsupported then (Inl ValueError, w)
      else
        (let rq = build_request self url method hdrs data; w1 = sent w rq in
         case net (length (requests w)) rq of
           Responded r \<Rightarrow>
             if status_code r = 200 then (Inr (Some r), w1)
             else if t < max_retries self then
               (let d = (if status_code r = 429 then rate_limit_delay self * t
                         else base_delay self * t)
                in if d < 0 then (Inl ValueError, w1)
                   else make_request self net url method hdrs data (t + 1) (slept w1 d))
             else (Inr None, w1)
         | RequestException \<Rightarrow>
             if t < max_retries self then
               (if base_delay self * t < 0 then (Inl ValueError, w1)
                else make_request self net url method hdrs data (t + 1)
                       (slept w1 (base_delay self * t)))
             else (Inr None, w1)))"
  by (subst make_request.simps)
     (simp add: session_send_def handle_response_def time_sleep_def sent_def slept_def Let_def
           split: outcome.splits)

lemma sent_simps [simp]:
  "requests (sent w rq) = requests w @ [rq]" "sleeps (sent w rq) = sleeps w"
  "page_fetches (sent w rq) = page_fetches w" "job_files (sent w rq) = job_files w"
  "count_files (sent w rq) = count_files w"
  by (simp_all add: sent_def)

lemma slept_simps [simp]:
  "requests (slept w d) = requests w" "sleeps (slept w d) = sleeps w @ [d]"
  "page_fetches (slept w d) = page_fetches w" "job_files (slept w d) = job_files w"
  "count_files (slept w d) = count_files w"
  by (simp_all add: slept_def)

lemma make_request_attempts:
  "make_request self net url method hdrs data t w = (res, w') \<Longrightarrow>
   \<exists>new. requests w' = requests w @ new \<and> length new \<le> nat (max_retries self - t) + 1"
proof (induction "nat (max_retries self - t)" arbitrary: t w)
  case 0
  then have "\<not> t < max_retries self" by simp
  with "0.prems" show ?case
    by (subst (asm) make_request_unfold)
       (auto simp: Let_def split: if_splits outcome.splits)
next
  case (Suc n)
  let ?w1 = "sent w (build_request self url method hdrs data)"
  from Suc.hyps(2) have n: "n = nat (max_retries self - (t + 1))"
    and m: "nat (max_retries self - t) = nat (max_retries self - (t + 1)) + 1"
    by simp_all
  consider (stop) "w' = w \<or> w' = ?w1"
    | (again) d where "make_request self net url method hdrs data (t + 1) (slept ?w1 d) = (res, w')"
    using Suc.prems
    by (subst (asm) make_request_unfold)
       (auto simp: Let_def split: if_splits outcome.splits)
  then show ?case
  proof cases
    case stop
    then show ?thesis by auto
  next
    case again
    from Suc.hyps(1) [OF n again] show ?thesis
      by (auto simp: m)
  qed
qed

text \<open>
  C1. When the attempt made at trial \<open>max_retries\<close> (or any later trial) is answered
  with a status other than 200, \<open>make_request\<close> returns \<open>None\<close>, not the response:
  the result is a value (\<open>Inr\<close>), no exception reaches the caller, and nothing is
  slept or retried.
\<close>

theorem make_request_exhausted:
  assumes "net (length (requests w)) (build_request self url method hdrs data) = Responded r"
    and "status_code r \<noteq> 200"
    and "method \<noteq> Unsupported"
    and "max_retries self \<le> t"
  shows "make_request self net url method hdrs data t w =
           (Inr None, w\<lparr>requests := requests w @ [build_request self url method hdrs data]\<rparr>)"
  using assms by (subst make_request_unfold) (simp add: Let_def sent_def)

theorem make_request_exhausted_witness:
  "make_request default_handler (\<lambda>n rq. Responded \<lparr>status_code = 503, resp_text = ''busy''\<rparr>)
     ''https://www.linkedin.com/jobs/view/1'' GET None None 5 empty_world =
   (Inr None,
    empty_world\<lparr>requests := [build_request default_handler
      ''https://www.linkedin.com/jobs/view/1'' GET None None]\<rparr>)"
  using make_request_exhausted [of "\<lambda>n rq. Responded \<lparr>status_code = 503, resp_text = ''busy''\<rparr>"
      empty_world default_handler "''https://www.linkedin.com/jobs/view/1''" GET None None
      "\<lparr>status_code = 503, resp_text = ''busy''\<rparr>" 5]
  by (simp add: default_handler_def empty_world_def)

text \<open>
  C2. At a trial \<open>t\<close> with \<open>0 < t < max_retries\<close>, a response with status 429 makes
  the client sleep for exactly \<open>rate_limit_delay * t\<close>, and any other status but 200
  for exactly \<open>base_delay * t\<close>; then it retries with trial \<open>t + 1\<close>. The delays are
  configured non-negative: \<open>time.sleep\<close> refuses a negative duration.
\<close>

theorem make_request_backoff:
  assumes "0 < t" and "t < max_retries self"
    and "net (length (requests w)) (build_request self url method hdrs data) = Responded r"
    and "status_code r \<noteq> 200"
    and "method \<noteq> Unsupported"
    and "0 \<le> rate_limit_delay self" and "0 \<le> base_delay self"
    and "delay = (if status_code r = 429 then rate_limit_delay self * t else base_delay self * t)"
  shows "handle_response self r t w = (Inr (Some False), w\<lparr>sleeps := sleeps w @ [delay]\<rparr>) \<and>
         make_request self net url method hdrs data t w =
           make_request self net url method hdrs data (t + 1)
             (w\<lparr>requests := requests w @ [build_request self url method hdrs data],
                sleeps := sleeps w @ [delay]\<rparr>)"
proof
  from assms have "0 \<le> delay" by simp
  with assms show "handle_response self r t w = (Inr (Some False), w\<lparr>sleeps := sleeps w @ [delay]\<rparr>)"
    by (simp add: handle_response_def time_sleep_def Let_def)
  from assms \<open>0 \<le> delay\<close> show "make_request self net url method hdrs data t w =
           make_request self net url method hdrs data (t + 1)
             (w\<lparr>requests := requests w @ [build_request self url method hdrs data],
                sleeps := sleeps w @ [delay]\<rparr>)"
    by (subst make_request_unfold) (auto simp add: Let_def sent_def slept_def)
qed

theorem make_request_backoff_witness:
  "handle_response default_handler \<lparr>status_code = 429, resp_text = ''slow down''\<rparr> 2 empty_world =
     (Inr (Some False), empty_world\<lparr>sleeps := [30]\<rparr>) \<and>
   make_request default_handler
     (\<lambda>n rq. Responded \<lparr>status_code = 429, resp_text = ''slow down''\<rparr>)
     ''https://www.linkedin.com/jobs/search'' GET None None 2 empty_world =
   make_request default_handler
     (\<lambda>n rq. Responded \<lparr>status_code = 429, resp_text = ''slow down''\<rparr>)
     ''https://www.linkedin.com/jobs/search'' GET None None 3
     (empty_world\<lparr>requests := [build_request default_handler
        ''https://www.linkedin.com/jobs/search'' GET None None], sleeps := [30]\<rparr>)"
  using make_request_backoff [of 2 default_handler
      "\<lambda>n rq. Responded \<lparr>status_code = 429, resp_text = ''slow down''\<rparr>" empty_world
      "''https://www.linkedin.com/jobs/search''" GET None None
      "\<lparr>status_code = 429, resp_text = ''slow down''\<rparr>" 30]
  by (simp add: default_handler_def empty_world_def)

text \<open>
  C9. \<open>make_request\<close> is a total function: whatever the URL and whatever the network
  answers or raises, it returns. With a non-negative retry budget, a call that starts at
  trial 0 (or any non-negative trial) makes at most \<open>max_retries + 1\<close> HTTP attempts:
  the requests it adds to the trace are \<open>new\<close>.
\<close>

theorem make_request_bounded:
  assumes "0 \<le> max_retries self" and "0 \<le> t"
  shows "\<exists>res w' new. make_request self net url method hdrs data t w = (res, w') \<and>
           requests w' = requests w @ new \<and> int (length new) \<le> max_retries self + 1"
proof -
  obtain res w' where r: "make_request self net url method hdrs data t w = (res, w')"
    by (cases "make_request self net url method hdrs data t w")
  from make_request_attempts [OF r] obtain new
    where "requests w' = requests w @ new" "length new \<le> nat (max_retries self - t) + 1"
    by blast
  with assms r show ?thesis by auto
qed

theorem make_request_bounded_witness:
  "\<exists>res w' new.
     make_request default_handler (\<lambda>n rq. RequestException)
       ''https://www.linkedin.com/jobs/search'' GET None None 0 empty_world = (res, w') \<and>
     requests w' = requests empty_world @ new \<and> int (length new) \<le> 5 + 1"
  using make_request_bounded [of default_handler 0 "\<lambda>n rq. RequestException"
      "''https://www.linkedin.com/jobs/search''" GET None None empty_world]
  by (simp add: default_handler_def)

section \<open>Properties of the scrapers\<close>

text \<open>
  The request handler touches neither the files nor the trace of page fetches; the
  scrapers above it add exactly what they fetch.
\<close>

lemma make_request_frame:
  "make_request self net url method hdrs data t w = (res, w') \<Longrightarrow>
   page_fetches w' = page_fetches w \<and> job_files w' = job_files w \<and>
   count_files w' = count_files w"
proof (induction "nat (max_retries self - t)" arbitrary: t w)
  case 0
  then have "\<not> t < max_retries self" by simp
  with "0.prems" show ?case
    by (subst (asm) make_request_unfold)
       (auto simp: Let_def split: if_splits outcome.splits)
next
  case (Suc n)
  let ?w1 = "sent w (build_request self url method hdrs data)"
  from Suc.hyps(2) have n: "n = nat (max_retries self - (t + 1))"
    by simp
  consider (stop) "w' = w \<or> w' = ?w1"
    | (again) d where "make_request self net url method hdrs data (t + 1) (slept ?w1 d) = (res, w')"
    using Suc.prems
    by (subst (asm) make_request_unfold)
       (auto simp: Let_def split: if_splits outcome.splits)
  then show ?case
  proof cases
    case stop
    then show ?thesis by auto
  next
    case again
    from Suc.hyps(1) [OF n again] show ?thesis
      by simp
  qed
qed

lemma get_frame:
  "get self net url hdrs w = (res, w') \<Longrightarrow>
   page_fetches w' = page_fetches w \<and> job_files w' = job_files w \<and>
   count_files w' = count_files w"
  unfolding get_def by (rule make_request_frame)

lemma get_total_jobs_frame:
  "get_total_jobs self L net job_title loc w = (res, w') \<Longrightarrow>
   page_fetches w' = page_fetches w \<and> job_files w' = job_files w \<and>
   count_files w' = count_files w"
  by (auto simp: get_total_jobs_def Let_def dest: get_frame
           split: prod.splits sum.splits option.splits)

lemma get_job_list_trace:
  "get_job_list self L net job_title loc position w = (Inr df, w') \<Longrightarrow>
   page_fetches w' = page_fetches w @ [(position, df)] \<and> job_files w' = job_files w \<and>
   count_files w' = count_files w"
  by (auto simp: get_job_list_def fetched_def Let_def dest: get_frame
           split: prod.splits sum.splits option.splits)

lemma paginate_trace:
  "paginate self L net job_title loc ps df w = (Inr out, w') \<Longrightarrow>
   job_files w' = job_files w \<and> count_files w' = count_files w \<and>
   (\<exists>pages. page_fetches w' = page_fetches w @ pages \<and>
      map fst pages = take (length pages) ps \<and>
      ((\<forall>pg \<in> set pages. \<not> stop_page (snd pg)) \<and> length pages = length ps \<and>
         out = df @ concat (map snd pages)
       \<or> (\<exists>kept l. pages = kept @ [l] \<and> stop_page (snd l) \<and>
             (\<forall>pg \<in> set kept. \<not> stop_page (snd pg)) \<and>
             out = df @ concat (map snd kept))))"
proof (induction ps arbitrary: df w)
  case Nil
  then show ?case by simp
next
  case (Cons p ps)
  from Cons.prems obtain new_jobs w1
    where g: "get_job_list (job_list_scraper self) L net job_title loc p w = (Inr new_jobs, w1)"
    by (auto split: prod.splits sum.splits)
  note t = get_job_list_trace [OF g]
  show ?case
  proof (cases "stop_page new_jobs")
    case True
    with Cons.prems g have "out = df" "w' = w1"
      by (auto simp: stop_page_def)
    with t True show ?thesis
      by (auto intro!: exI [of _ "[(p, new_jobs)]"])
  next
    case False
    with Cons.prems g
    have r: "paginate self L net job_title loc ps (df @ new_jobs) w1 = (Inr out, w')"
      by (auto simp: stop_page_def)
    from Cons.IH [OF r] obtain pages
      where f: "job_files w' = job_files w1" "count_files w' = count_files w1"
        and pg: "page_fetches w' = page_fetches w1 @ pages"
          "map fst pages = take (length pages) ps"
        and alt: "(\<forall>pg \<in> set pages. \<not> stop_page (snd pg)) \<and> length pages = length ps \<and>
           out = (df @ new_jobs) @ concat (map snd pages)
         \<or> (\<exists>kept l. pages = kept @ [l] \<and> stop_page (snd l) \<and>
             (\<forall>pg \<in> set kept. \<not> stop_page (snd pg)) \<and>
             out = (df @ new_jobs) @ concat (map snd kept))"
      by blast
    let ?pages = "(p, new_jobs) # pages"
    have a: "page_fetches w' = page_fetches w @ ?pages" using t pg by simp
    have b: "map fst ?pages = take (length ?pages) (p # ps)" using pg by simp
    from alt
    have c: "(\<forall>pg \<in> set ?pages. \<not> stop_page (snd pg)) \<and> length ?pages = length (p # ps) \<and>
           out = df @ concat (map snd ?pages)
         \<or> (\<exists>kept l. ?pages = kept @ [l] \<and> stop_page (snd l) \<and>
             (\<forall>pg \<in> set kept. \<not> stop_page (snd pg)) \<and>
             out = df @ concat (map snd kept))"
    proof
      assume "(\<forall>pg \<in> set pages. \<not> stop_page (snd pg)) \<and> length pages = length ps \<and>
           out = (df @ new_jobs) @ concat (map snd pages)"
      with False show ?thesis by simp
    next
      assume "\<exists>kept l. pages = kept @ [l] \<and> stop_page (snd l) \<and>
             (\<forall>pg \<in> set kept. \<not> stop_page (snd pg)) \<and>
             out = (df @ new_jobs) @ concat (map snd kept)"
      then obtain kept l where k: "pages = kept @ [l]" "stop_page (snd l)"
        "\<forall>pg \<in> set kept. \<not> stop_page (snd pg)" "out = (df @ new_jobs) @ concat (map snd kept)"
        by blast
      with False have "?pages = ((p, new_jobs) # kept) @ [l] \<and> stop_page (snd l) \<and>
             (\<forall>pg \<in> set ((p, new_jobs) # kept). \<not> stop_page (snd pg)) \<and>
             out = df @ concat (map snd ((p, new_jobs) # kept))"
        by simp
      then show ?thesis by blast
    qed
    have "\<exists>pages. page_fetches w' = page_fetches w @ pages \<and>
      map fst pages = take (length pages) (p # ps) \<and>
      ((\<forall>pg \<in> set pages. \<not> stop_page (snd pg)) \<and> length pages = length (p # ps) \<and>
         out = df @ concat (map snd pages)
       \<or> (\<exists>kept l. pages = kept @ [l] \<and> stop_page (snd l) \<and>
             (\<forall>pg \<in> set kept. \<not> stop_page (snd pg)) \<and>
             out = df @ concat (map snd kept)))"
      using a b c by (intro exI [of _ ?pages] conjI)
    with f t show ?thesis by simp
  qed
qed

lemma stop_page_is_last:
  assumes "earlier @ x # later = kept @ [l]" and "stop_page (snd x)"
    and "\<forall>pg \<in> set kept. \<not> stop_page (snd pg)"
  shows "later = [] \<and> earlier = kept \<and> x = l"
proof (cases later rule: rev_cases)
  case Nil
  with assms(1) show ?thesis by simp
next
  case (snoc later' y)
  with assms(1) have "kept = earlier @ x # later'" by simp
  with assms(2,3) show ?thesis by simp
qed

text \<open>
  C4. In every run of \<open>scrape_all_jobs\<close> that returns a table: if the page fetched at
  a continuation offset (any page after the first, at offset 0) is empty or has no title
  at all, then it is the last page fetched, whatever remains of the range up to the
  effective limit, and the table returned and written to the file holds exactly the rows
  of the pages fetched before it.
\<close>

theorem scrape_all_jobs_stops_at_empty_page:
  assumes run: "scrape_all_jobs self L net job_title loc limit w = (Inr (Some (all_jobs, path)), w')"
    and trace: "page_fetches w' = page_fetches w @ (0, first) # earlier @ (position, page) # later"
    and stop: "df_empty page \<or> title_isnull_all page"
  shows "later = [] \<and> all_jobs = first @ concat (map snd earlier) \<and>
         job_files w' path = Some all_jobs"
proof -
  from run obtain total_jobs w1 jobs_df w2 lim w3
    where c: "get_total_jobs (job_list_scraper self) L net job_title loc w = (Inr total_jobs, w1)"
      and f: "get_job_list (job_list_scraper self) L net job_title loc 0 w1 = (Inr jobs_df, w2)"
      and p: "paginate self L net job_title loc (py_range 60 lim 10) jobs_df w2 = (Inr all_jobs, w3)"
      and w': "w' = w3\<lparr>job_files := (job_files w3)(path \<mapsto> all_jobs)\<rparr>"
    by (auto simp: scrape_all_jobs_def Let_def
             split: prod.splits sum.splits option.splits if_splits)
  from paginate_trace [OF p] obtain pages
    where pg: "page_fetches w3 = page_fetches w2 @ pages"
      and alt: "(\<forall>pg \<in> set pages. \<not> stop_page (snd pg)) \<and>
           length pages = length (py_range 60 lim 10) \<and> all_jobs = jobs_df @ concat (map snd pages)
         \<or> (\<exists>kept l. pages = kept @ [l] \<and> stop_page (snd l) \<and>
             (\<forall>pg \<in> set kept. \<not> stop_page (snd pg)) \<and>
             all_jobs = jobs_df @ concat (map snd kept))"
    by blast
  from get_total_jobs_frame [OF c] get_job_list_trace [OF f] pg w'
  have "page_fetches w' = page_fetches w @ (0, jobs_df) # pages" by simp
  with trace have eq: "first = jobs_df" "pages = earlier @ (position, page) # later" by simp_all
  from stop have sp: "stop_page (snd (position, page))" by (simp add: stop_page_def)
  from alt eq sp obtain kept l where k: "earlier @ (position, page) # later = kept @ [l]"
    "\<forall>pg \<in> set kept. \<not> stop_page (snd pg)" "all_jobs = jobs_df @ concat (map snd kept)"
    by auto
  from stop_page_is_last [OF k(1) sp k(2)] k(3) eq w' show ?thesis by simp
qed

lemma get_ok:
  "net (length (requests w)) (build_request self url GET hdrs None) = Responded r \<Longrightarrow>
   status_code r = 200 \<Longrightarrow>
   get self net url hdrs w = (Inr (Some r), sent w (build_request self url GET hdrs None))"
  by (simp add: get_def make_request_unfold Let_def)

lemma fetched_simps [simp]:
  "requests (fetched w p df) = requests w" "sleeps (fetched w p df) = sleeps w"
  "page_fetches (fetched w p df) = page_fetches w @ [(p, df)]"
  "job_files (fetched w p df) = job_files w" "count_files (fetched w p df) = count_files w"
  by (simp_all add: fetched_def)

lemma get_total_jobs_ok:
  assumes "net (length (requests w)) rq = Responded r" and "status_code r = 200"
    and "rq = build_request (request_handler self) (build_search_url L job_title loc 0) GET
                (Some (scraper_headers self)) None"
  shows "get_total_jobs self L net job_title loc w =
           (Inr (map Some (parse_total_jobs L (resp_text r))), sent w rq)"
  using assms by (simp add: get_total_jobs_def get_ok)

lemma get_job_list_ok:
  assumes "net (length (requests w)) rq = Responded r" and "status_code r = 200"
    and "rq = build_request (request_handler self) (build_search_url L job_title loc position)
                GET (Some (scraper_headers self)) None"
  shows "get_job_list self L net job_title loc position w =
           (Inr (parse_jobs L (resp_text r)), fetched (sent w rq) position (parse_jobs L (resp_text r)))"
  using assms by (simp add: get_job_list_def get_ok Let_def)

text \<open>
  C3. When the count fetch reports a total of 75 and the caller's limit is 100, the
  effective limit is \<open>min 75 100 = 75\<close>, the continuation offsets are \<open>[60, 70]\<close> (80
  is not below 75), and \<open>scrape_all_jobs\<close> makes exactly three page fetches, at offsets
  0, 60 and 70, provided the pagination is not cut short before: the first page is not
  empty and the page at offset 60 is not the end-of-results page of C4.
\<close>

theorem scrape_all_jobs_75_of_100:
  assumes "get_total_jobs (job_list_scraper self) L net job_title loc w = (Inr (Some 75 # counts), w1)"
    and "get_job_list (job_list_scraper self) L net job_title loc 0 w1 = (Inr p0, w2)"
    and "\<not> df_empty p0"
    and "get_job_list (job_list_scraper self) L net job_title loc 60 w2 = (Inr p60, w3)"
    and "\<not> (df_empty p60 \<or> title_isnull_all p60)"
    and "get_job_list (job_list_scraper self) L net job_title loc 70 w3 = (Inr p70, w4)"
  shows "min 75 100 = (75::int) \<and> py_range 60 (min 75 100) 10 = [60, 70] \<and>
         (\<exists>all_jobs w'.
            scrape_all_jobs self L net job_title loc 100 w =
              (Inr (Some (all_jobs, jobs_file_path self job_title loc)), w') \<and>
            page_fetches w' = page_fetches w @ [(0, p0), (60, p60), (70, p70)])"
proof -
  have r: "py_range 60 75 10 = [60, 70]"
    by (simp add: py_range.simps)
  note t = get_total_jobs_frame [OF assms(1)] get_job_list_trace [OF assms(2)]
    get_job_list_trace [OF assms(4)] get_job_list_trace [OF assms(6)]
  from assms r t show ?thesis
    by (simp add: scrape_all_jobs_def nth_opt_def Let_def)
qed

lemma example_parse_jobs [simp]:
  "parse_jobs example_libraries ''search75'' = [example_job]"
  "parse_jobs example_libraries ''search200'' = [example_job]"
  "parse_jobs example_libraries ''more'' = [example_job]"
  "parse_jobs example_libraries ''empty'' = sentinel_df"
  by (simp_all add: parse_jobs_def example_libraries_def example_card_def job_of_card_def
        example_job_def List.map_filter_simps)

lemma example_scraper_simps [simp]:
  "request_handler (job_list_scraper example_scraper) = default_handler"
  "scraper_headers (job_list_scraper example_scraper) = Map.empty"
  "request_handler (job_details_scraper example_scraper) = default_handler"
  "scraper_headers (job_details_scraper example_scraper) = Map.empty"
  "data_dir example_scraper = ''data/raw''"
  by (simp_all add: example_scraper_def new_LinkedInScraper_def)

lemma example_parse_total_jobs [simp]:
  "parse_total_jobs example_libraries ''search75'' = [75, 0, 0, 0]"
  "parse_total_jobs example_libraries ''search200'' = [200, 0, 0, 0]"
  by (simp_all add: parse_total_jobs_def example_libraries_def extract_count_def
        re_findall_digits_def is_digit_def int_of_digits_def)

lemma example_job_shown [simp]:
  "\<not> df_empty [example_job]" "\<not> title_isnull_all [example_job]"
  "title_isnull_all sentinel_df"
  by (simp_all add: df_empty_def title_isnull_all_def example_job_def new_JobPosting_def
        sentinel_df_def)

theorem scrape_all_jobs_75_of_100_witness:
  "\<exists>all_jobs w'.
     scrape_all_jobs example_scraper example_libraries net75 ''Developer'' ''Ottawa'' 100
       empty_world =
       (Inr (Some (all_jobs, ''data/raw/Developer/Developer in Ottawa.csv'')), w') \<and>
     page_fetches w' = [(0, [example_job]), (60, [example_job]), (70, [example_job])]"
proof -
  let ?sc = "job_list_scraper example_scraper"
  let ?w1 = "sent empty_world (search_request 0)"
  let ?w2 = "fetched (sent ?w1 (search_request 0)) 0 [example_job]"
  let ?w3 = "fetched (sent ?w2 (search_request 60)) 60 [example_job]"
  let ?w4 = "fetched (sent ?w3 (search_request 70)) 70 [example_job]"
  have e: "requests empty_world = []" "page_fetches empty_world = []"
    by (simp_all add: empty_world_def)
  have h1: "get_total_jobs ?sc example_libraries net75 ''Developer'' ''Ottawa'' empty_world =
              (Inr (Some 75 # [Some 0, Some 0, Some 0]), ?w1)"
    by (subst get_total_jobs_ok [of net75 _ "search_request 0" "\<lparr>status_code = 200, resp_text = ''search75''\<rparr>"])
       (simp_all add: e net75_def ok_def search_request_def)
  have h2: "get_job_list ?sc example_libraries net75 ''Developer'' ''Ottawa'' 0 ?w1 =
              (Inr [example_job], ?w2)"
    by (subst get_job_list_ok [of net75 _ "search_request 0" "\<lparr>status_code = 200, resp_text = ''more''\<rparr>"])
       (simp_all add: e net75_def ok_def search_request_def)
  have h3: "get_job_list ?sc example_libraries net75 ''Developer'' ''Ottawa'' 60 ?w2 =
              (Inr [example_job], ?w3)"
    by (subst get_job_list_ok [of net75 _ "search_request 60" "\<lparr>status_code = 200, resp_text = ''more''\<rparr>"])
       (simp_all add: e net75_def ok_def search_request_def)
  have h4: "get_job_list ?sc example_libraries net75 ''Developer'' ''Ottawa'' 70 ?w3 =
              (Inr [example_job], ?w4)"
    by (subst get_job_list_ok [of net75 _ "search_request 70" "\<lparr>status_code = 200, resp_text = ''more''\<rparr>"])
       (simp_all add: e net75_def ok_def search_request_def)
  from scrape_all_jobs_75_of_100 [OF h1 h2 _ h3 _ h4]
  show ?thesis by (simp add: e jobs_file_path_def)
qed

theorem scrape_all_jobs_stops_at_empty_page_witness:
  "py_range 60 (min 200 100) 10 = [60, 70, 80, 90] \<and>
   fst (scrape_all_jobs example_scraper example_libraries net200 ''Developer'' ''Ottawa'' 100
          empty_world) =
     Inr (Some ([example_job, example_job], ''data/raw/Developer/Developer in Ottawa.csv'')) \<and>
   page_fetches (snd (scrape_all_jobs example_scraper example_libraries net200 ''Developer''
                        ''Ottawa'' 100 empty_world)) =
     [(0, [example_job]), (60, [example_job]), (70, sentinel_df)] \<and>
   job_files (snd (scrape_all_jobs example_scraper example_libraries net200 ''Developer''
                     ''Ottawa'' 100 empty_world))
     ''data/raw/Developer/Developer in Ottawa.csv'' = Some [example_job, example_job]"
proof -
  let ?sc = "job_list_scraper example_scraper"
  let ?path = "''data/raw/Developer/Developer in Ottawa.csv''"
  let ?w1 = "sent empty_world (search_request 0)"
  let ?w2 = "fetched (sent ?w1 (search_request 0)) 0 [example_job]"
  let ?w3 = "fetched (sent ?w2 (search_request 60)) 60 [example_job]"
  let ?w4 = "fetched (sent ?w3 (search_request 70)) 70 sentinel_df"
  let ?w5 = "?w4\<lparr>job_files := (job_files ?w4)(?path \<mapsto> [example_job, example_job])\<rparr>"
  have e: "requests empty_world = []" "page_fetches empty_world = []"
    by (simp_all add: empty_world_def)
  have r: "py_range 60 100 10 = [60, 70, 80, 90]"
    by (simp add: py_range.simps)
  have h1: "get_total_jobs ?sc example_libraries net200 ''Developer'' ''Ottawa'' empty_world =
              (Inr [Some 200, Some 0, Some 0, Some 0], ?w1)"
    by (subst get_total_jobs_ok [of net200 _ "search_request 0" "\<lparr>status_code = 200, resp_text = ''search200''\<rparr>"])
       (simp_all add: e net200_def ok_def search_request_def)
  have h2: "get_job_list ?sc example_libraries net200 ''Developer'' ''Ottawa'' 0 ?w1 =
              (Inr [example_job], ?w2)"
    by (subst get_job_list_ok [of net200 _ "search_request 0" "\<lparr>status_code = 200, resp_text = ''more''\<rparr>"])
       (simp_all add: e net200_def ok_def search_request_def)
  have h3: "get_job_list ?sc example_libraries net200 ''Developer'' ''Ottawa'' 60 ?w2 =
              (Inr [example_job], ?w3)"
    by (subst get_job_list_ok [of net200 _ "search_request 60" "\<lparr>status_code = 200, resp_text = ''more''\<rparr>"])
       (simp_all add: e net200_def ok_def search_request_def)
  have h4: "get_job_list ?sc example_libraries net200 ''Developer'' ''Ottawa'' 70 ?w3 =
              (Inr sentinel_df, ?w4)"
    by (subst get_job_list_ok [of net200 _ "search_request 70" "\<lparr>status_code = 200, resp_text = ''empty''\<rparr>"])
       (simp_all add: e net200_def ok_def search_request_def)
  have run: "scrape_all_jobs example_scraper example_libraries net200 ''Developer'' ''Ottawa'' 100
               empty_world = (Inr (Some ([example_job, example_job], ?path)), ?w5)"
    by (simp add: scrape_all_jobs_def h1 h2 h3 h4 r nth_opt_def jobs_file_path_def Let_def)
  have trace: "page_fetches ?w5 =
      page_fetches empty_world @ (0, [example_job]) # [(60, [example_job])] @ (70, sentinel_df) # []"
    by (simp add: e)
  from scrape_all_jobs_stops_at_empty_page [OF run trace] r run
  show ?thesis by (simp add: e)
qed

lemma make_request_no_raise:
  assumes "0 \<le> base_delay self" and "0 \<le> rate_limit_delay self" and "method \<noteq> Unsupported"
  shows "0 \<le> t \<Longrightarrow> make_request self net url method hdrs data t w = (res, w') \<Longrightarrow> \<exists>r. res = Inr r"
proof (induction "nat (max_retries self - t)" arbitrary: t w)
  case 0
  then have "\<not> t < max_retries self" by simp
  with "0.prems" assms show ?case
    by (subst (asm) make_request_unfold)
       (auto simp: Let_def split: if_splits outcome.splits)
next
  case (Suc n)
  let ?w1 = "sent w (build_request self url method hdrs data)"
  from Suc.hyps(2) have n: "n = nat (max_retries self - (t + 1))"
    by simp
  from Suc.prems(1) assms have nonneg: "\<not> base_delay self * t < 0" "\<not> rate_limit_delay self * t < 0"
    by (simp_all add: not_less)
  consider (stop) r where "res = Inr r"
    | (again) d where "make_request self net url method hdrs data (t + 1) (slept ?w1 d) = (res, w')"
    using Suc.prems(2) assms(3) nonneg
    by (subst (asm) make_request_unfold)
       (auto simp: Let_def split: if_splits outcome.splits)
  then show ?case
  proof cases
    case stop
    then show ?thesis by auto
  next
    case again
    from Suc.prems(1) have "0 \<le> t + 1" by simp
    from Suc.hyps(1) [OF n this again] show ?thesis .
  qed
qed

lemma get_default_no_raise:
  "get default_handler net url hdrs w = (res, w') \<Longrightarrow> \<exists>r. res = Inr r"
  unfolding get_def
  by (rule make_request_no_raise [of default_handler GET 0]) (simp_all add: default_handler_def)

text \<open>
  C10. Whenever the request client returns to \<open>get_total_jobs\<close> (a response or
  \<open>None\<close>): the result is the all-absent sentinel exactly when the client returned
  \<open>None\<close>; for a response it is four integers, none absent, one for each of the labels
  \<open>f_TPR-0\<close> to \<open>f_TPR-3\<close>, and a label that is missing or holds no digit counts as 0, so
  a page from which nothing can be parsed gives four zeros and not the sentinel.
\<close>

theorem get_total_jobs_sentinel_iff:
  assumes "get (request_handler self) net (build_search_url L job_title loc 0)
             (Some (scraper_headers self)) w = (Inr resp, w')"
  shows "\<exists>counts.
           get_total_jobs self L net job_title loc w = (Inr counts, w') \<and>
           (counts = [None, None, None, None] \<longleftrightarrow> resp = None) \<and>
           (\<forall>r. resp = Some r \<longrightarrow>
              counts = map (\<lambda>label. Some (extract_count (label_text L (resp_text r) label)))
                         [''f_TPR-0'', ''f_TPR-1'', ''f_TPR-2'', ''f_TPR-3''] \<and>
              (\<forall>label. (\<forall>txt. label_text L (resp_text r) label = Some txt \<longrightarrow>
                                re_findall_digits txt = []) \<longrightarrow>
                       extract_count (label_text L (resp_text r) label) = 0))"
  using assms
  by (cases resp)
     (auto simp: get_total_jobs_def parse_total_jobs_def extract_count_def Let_def
           split: option.splits)

theorem get_total_jobs_sentinel_iff_witness:
  "get_total_jobs (job_list_scraper example_scraper) example_libraries (\<lambda>n rq. ok ''empty'')
     ''Developer'' ''Ottawa'' empty_world =
     (Inr [Some 0, Some 0, Some 0, Some 0], sent empty_world (search_request 0))"
proof -
  have g: "get (request_handler (job_list_scraper example_scraper)) (\<lambda>n rq. ok ''empty'')
             (build_search_url example_libraries ''Developer'' ''Ottawa'' 0)
             (Some (scraper_headers (job_list_scraper example_scraper))) empty_world =
           (Inr (Some \<lparr>status_code = 200, resp_text = ''empty''\<rparr>),
            sent empty_world (search_request 0))"
    by (simp add: get_ok ok_def search_request_def)
  from get_total_jobs_sentinel_iff [OF g] show ?thesis
    by (auto simp: example_libraries_def extract_count_def)
qed

lemma collect_counts_frame:
  "collect_counts sc L net job_title cities acc w = (res, w') \<Longrightarrow>
   job_files w' = job_files w \<and> count_files w' = count_files w"
proof (induction cities arbitrary: acc w)
  case Nil
  then show ?case by simp
next
  case (Cons city cities)
  obtain r w1 where g: "get_total_jobs sc L net job_title city w = (r, w1)"
    by (cases "get_total_jobs sc L net job_title city w")
  note f = get_total_jobs_frame [OF g]
  from Cons.prems g consider "w' = w1"
    | result where "collect_counts sc L net job_title cities (acc @ [result]) w1 = (res, w')"
    by (auto split: sum.splits if_splits)
  then show ?case
  proof cases
    case 1
    with f show ?thesis by simp
  next
    case 2
    from Cons.IH [OF 2] f show ?thesis by simp
  qed
qed

lemma collect_counts_append:
  "collect_counts sc L net job_title earlier acc w = (Inr (Some got), w1) \<Longrightarrow>
   collect_counts sc L net job_title (earlier @ rest) acc w =
     collect_counts sc L net job_title rest got w1"
proof (induction earlier arbitrary: acc w)
  case Nil
  then show ?case by simp
next
  case (Cons city earlier)
  from Cons.prems obtain result w0
    where g: "get_total_jobs sc L net job_title city w = (Inr result, w0)"
      and n: "result \<noteq> [None, None, None, None]"
      and r: "collect_counts sc L net job_title earlier (acc @ [result]) w0 = (Inr (Some got), w1)"
    by (auto split: prod.splits sum.splits if_splits)
  from Cons.IH [OF r] g n show ?case by simp
qed

text \<open>
  C5. If the count fetch of some city returns the all-absent sentinel (the counts of the
  cities before it having been fetched), \<open>create_city_comparison\<close> returns \<open>None\<close>, no
  table at all, and both file stores are as they were before the call: the time series
  file, if there is one, is unchanged, and no row of the cities that succeeded is written.
\<close>

theorem create_city_comparison_aborts:
  assumes "collect_counts (orch_job_list_scraper self) L net job_title earlier [] w =
             (Inr (Some got), w1)"
    and "get_total_jobs (orch_job_list_scraper self) L net job_title city w1 =
             (Inr [None, None, None, None], w2)"
  shows "create_city_comparison self L net today job_title (Some (earlier @ city # later)) w =
           (Inr None, w2) \<and>
         count_files w2 = count_files w \<and> job_files w2 = job_files w"
proof -
  from collect_counts_append [OF assms(1)] assms(2)
  have c: "collect_counts (orch_job_list_scraper self) L net job_title (earlier @ city # later) [] w =
        (Inr None, w2)"
    by simp
  from collect_counts_frame [OF c] c show ?thesis
    by (simp add: create_city_comparison_def)
qed

theorem create_city_comparison_aborts_witness:
  "fst (create_city_comparison example_orchestrator example_libraries net503 ''2024-01-20''
          ''Developer'' (Some [''Ottawa'', ''Toronto'', ''Montreal'']) world_with_series) = Inr None \<and>
   count_files (snd (create_city_comparison example_orchestrator example_libraries net503
          ''2024-01-20'' ''Developer'' (Some [''Ottawa'', ''Toronto'', ''Montreal''])
          world_with_series)) =
     [''data/raw/JobData/Developer/TotalJobs/TotalJobs.csv'' \<mapsto> [old_row]] \<and>
   length (requests (snd (create_city_comparison example_orchestrator example_libraries net503
          ''2024-01-20'' ''Developer'' (Some [''Ottawa'', ''Toronto'', ''Montreal''])
          world_with_series))) = 7"
proof -
  let ?sc = "orch_job_list_scraper example_orchestrator"
  let ?rq = "build_request default_handler
               (build_search_url example_libraries ''Developer'' ''Ottawa'' 0) GET
               (Some Map.empty) None"
  let ?w1 = "sent world_with_series ?rq"
  let ?w2 = "snd (get_total_jobs ?sc example_libraries net503 ''Developer'' ''Toronto'' ?w1)"
  have sc: "request_handler ?sc = default_handler" "scraper_headers ?sc = Map.empty"
    by (simp_all add: example_orchestrator_def new_ScrapingOrchestrator_def)
  have e: "requests world_with_series = []"
    by (simp add: world_with_series_def empty_world_def)
  have g1: "get_total_jobs ?sc example_libraries net503 ''Developer'' ''Ottawa'' world_with_series =
              (Inr [Some 75, Some 0, Some 0, Some 0], ?w1)"
    by (subst get_total_jobs_ok [of net503 _ ?rq "\<lparr>status_code = 200, resp_text = ''search75''\<rparr>"])
       (simp_all add: e sc net503_def ok_def)
  then have h1: "collect_counts ?sc example_libraries net503 ''Developer'' [''Ottawa''] []
                   world_with_series = (Inr (Some [[Some 75, Some 0, Some 0, Some 0]]), ?w1)"
    by simp
  have "fst (get_total_jobs ?sc example_libraries net503 ''Developer'' ''Toronto'' ?w1) =
          Inr [None, None, None, None] \<and> length (requests ?w2) = 7"
    by (simp add: get_total_jobs_def get_def make_request_unfold Let_def sc e net503_def
          default_handler_def)
  then have h2: "get_total_jobs ?sc example_libraries net503 ''Developer'' ''Toronto'' ?w1 =
                   (Inr [None, None, None, None], ?w2)"
    and n: "length (requests ?w2) = 7"
    by (simp_all add: prod_eq_iff)
  from create_city_comparison_aborts [OF h1 h2, of "''2024-01-20''" "[''Montreal'']"] n
  show ?thesis by (simp add: world_with_series_def empty_world_def)
qed

lemma details_loop_acc:
  "details_loop self L net rows acc w =
     (case details_loop self L net rows [] w of
        (Inl e, w') \<Rightarrow> (Inl e, w')
      | (Inr out, w') \<Rightarrow> (Inr (acc @ out), w'))"
proof (induction rows arbitrary: acc w)
  case Nil
  then show ?case by simp
next
  case (Cons row rows)
  show ?case
    by (simp add: Cons.IH [of "acc @ _"] Cons.IH [of "[_]"] Cons.IH [of acc]
          split: option.splits prod.splits sum.splits list.splits)
qed

lemma details_loop_append:
  "details_loop self L net earlier [] w = (Inr out1, w1) \<Longrightarrow>
   details_loop self L net (earlier @ rest) [] w =
     (case details_loop self L net rest [] w1 of
        (Inl e, w') \<Rightarrow> (Inl e, w')
      | (Inr out2, w') \<Rightarrow> (Inr (out1 @ out2), w'))"
proof (induction earlier arbitrary: out1 w)
  case Nil
  then show ?case by (simp split: prod.splits sum.splits)
next
  case (Cons row earlier)
  note IH = Cons.IH and prems = Cons.prems
  show ?case
  proof (cases "job_link row")
    case None
    with IH prems show ?thesis by simp
  next
    case (Some job_url)
    from prems Some obtain job_details w0
      where g: "get_job_details (job_details_scraper self) L net job_url w = (Inr job_details, w0)"
      by (auto split: prod.splits sum.splits)
    show ?thesis
    proof (cases job_details)
      case Nil
      with IH prems Some g show ?thesis by simp
    next
      case (Cons d ds)
      with prems Some g
      have "details_loop self L net earlier [with_details row d] w0 = (Inr out1, w1)"
        by simp
      then obtain out0 where
        r: "details_loop self L net earlier [] w0 = (Inr out0, w1)" and o: "out1 = with_details row d # out0"
        by (subst (asm) details_loop_acc) (auto split: prod.splits sum.splits)
      from IH [OF r] Some g Cons o show ?thesis
        by (simp add: details_loop_acc [of _ _ _ _ "[with_details row d]"]
              split: prod.splits sum.splits)
    qed
  qed
qed

lemma details_loop_length:
  "details_loop self L net rows [] w = (Inr out, w') \<Longrightarrow> length out \<le> length rows"
proof (induction rows arbitrary: out w)
  case Nil
  then show ?case by simp
next
  case (Cons row rows)
  from Cons.prems consider w0 where "details_loop self L net rows [] w0 = (Inr out, w')"
    | d w0 where "details_loop self L net rows [with_details row d] w0 = (Inr out, w')"
    by (auto split: option.splits prod.splits sum.splits list.splits)
  then show ?case
  proof cases
    case 1
    from Cons.IH [OF 1] show ?thesis by simp
  next
    case 2
    then obtain out0 where "details_loop self L net rows [] w0 = (Inr out0, w')"
      "out = with_details row d # out0"
      by (subst (asm) details_loop_acc) (auto split: prod.splits sum.splits)
    with Cons.IH [of w0 out0] show ?thesis by simp
  qed
qed

lemma get_job_details_resp:
  "get (request_handler self) net job_url (Some (scraper_headers self)) w = (Inr resp, w') \<Longrightarrow>
   get_job_details self L net job_url w =
     (Inr (case resp of None \<Rightarrow> [] | Some r \<Rightarrow> parse_response L (resp_text r)), w')"
  by (simp add: get_job_details_def split: option.splits)

lemma parse_response_single: "\<exists>d. parse_response L page = [d]"
  by (simp add: parse_response_def Let_def)

text \<open>
  A posting whose details cannot be fetched is dropped. Take any row of the input table
  that has a job link, with the rows before it and the rows after it processed without
  an exception. If the request client returns \<open>None\<close> for its details page, the row
  contributes nothing: the table that is returned and written consists of the rows kept
  before and the rows kept after, and has fewer rows than the input.
\<close>

lemma scrape_all_job_details_drops_failed:
  assumes "job_files w file_path = Some (earlier @ row # later)"
    and "details_loop self L net earlier [] w = (Inr kept_before, w1)"
    and "job_link row = Some job_url"
    and "get (request_handler (job_details_scraper self)) net job_url
           (Some (scraper_headers (job_details_scraper self))) w1 = (Inr None, w2)"
    and "details_loop self L net later [] w2 = (Inr kept_after, w3)"
  shows "scrape_all_job_details self L net file_path w =
           (Inr (kept_before @ kept_after, file_path),
            w3\<lparr>job_files := (job_files w3)(file_path \<mapsto> kept_before @ kept_after)\<rparr>) \<and>
         length (kept_before @ kept_after) < length (earlier @ row # later)"
proof -
  note g = get_job_details_resp [OF assms(4), of L]
  note n = details_loop_length [OF assms(2)] details_loop_length [OF assms(5)]
  from g assms(3,5)
  have "details_loop self L net (row # later) [] w1 = (Inr kept_after, w3)"
    by simp
  with details_loop_append [OF assms(2), of "row # later"]
  have "details_loop self L net (earlier @ row # later) [] w = (Inr (kept_before @ kept_after), w3)"
    by simp
  with assms(1) n show ?thesis
    by (simp add: scrape_all_job_details_def)
qed

text \<open>
  A posting whose details page is fetched is kept, whatever the page holds: the test
  \<open>job_details.empty\<close> never holds for the table \<open>_parse_response\<close> builds, which has
  one row for every page.
\<close>

lemma details_loop_keeps_fetched:
  assumes "job_link row = Some job_url"
    and "get (request_handler (job_details_scraper self)) net job_url
           (Some (scraper_headers (job_details_scraper self))) w = (Inr (Some r), w1)"
  shows "\<exists>d. parse_response L (resp_text r) = [d] \<and>
           details_loop self L net (row # rows) acc w =
             details_loop self L net rows (acc @ [with_details row d]) w1"
proof -
  obtain d where d: "parse_response L (resp_text r) = [d]"
    using parse_response_single by blast
  with get_job_details_resp [OF assms(2), of L] assms(1) show ?thesis
    by simp
qed

text \<open>
  The second pass, \<open>scrape_all_company_details\<close>, has the same test but drops the
  posting when the page is fetched and nothing can be parsed from it: the dictionary
  \<open>data\<close> stays empty, the table built from it has no column, and it is \<open>empty\<close>.
\<close>

lemma company_loop_drops_unparseable:
  assumes "company_url row = Some url"
    and "get (request_handler (company_details_scraper self)) net url
           (Some (scraper_headers (company_details_scraper self))) w = (Inr (Some r), w1)"
    and "list_all (\<lambda>element. element = None) (company_info L (resp_text r))"
  shows "company_df_empty (parse_company_response L (resp_text r)) \<and>
         company_loop self L net (row # rows) acc w = company_loop self L net rows acc w1"
proof -
  have "fold (\<lambda>element data.
                case element of
                  None \<Rightarrow> data
                | Some (key, val) \<Rightarrow> dict_set data (normalized_key L key) val)
          es [] = []" if "list_all (\<lambda>element. element = None) es" for es
    using that by (induction es) simp_all
  with assms(3) have e: "parse_company_response L (resp_text r) = [[]]"
    by (simp add: parse_company_response_def)
  with assms(1,2) show ?thesis
    by (simp add: get_company_details_def company_df_empty_def)
qed

lemma example_parse_response [simp]:
  "parse_response example_libraries page = [no_details]"
  by (simp add: parse_response_def example_libraries_def no_details_def nth_opt_def)

lemma with_no_details [simp]:
  "with_details example_job no_details = example_job"
  "with_details example_job2 no_details = example_job2"
  by (simp_all add: with_details_def example_job_def example_job2_def no_details_def
        new_JobPosting_def)

lemma example_job_links [simp]:
  "job_link example_job = Some ''https://www.linkedin.com/jobs/view/1''"
  "job_link example_job2 = Some ''https://www.linkedin.com/jobs/view/2''"
  by (simp_all add: example_job_def example_job2_def new_JobPosting_def)

text \<open>
  C6. The details pass does not drop a posting whose details page is fetched but holds
  nothing that can be parsed. The input table has the one posting \<open>example_job\<close>; the
  server answers with status 200 and the page \<open>empty\<close>, on which every lookup of
  \<open>_parse_response\<close> finds nothing. The posting is in the table returned and in the
  table written, with no detail field set.
\<close>

theorem scrape_all_job_details_keeps_unparseable:
  "parse_response example_libraries ''empty'' = [no_details] \<and>
   fst (scrape_all_job_details example_scraper example_libraries (\<lambda>n rq. ok ''empty'')
          ''data/raw/Developer/Developer in Ottawa.csv'' (world_with_jobs [example_job])) =
     Inr ([example_job], ''data/raw/Developer/Developer in Ottawa.csv'') \<and>
   job_files (snd (scrape_all_job_details example_scraper example_libraries (\<lambda>n rq. ok ''empty'')
          ''data/raw/Developer/Developer in Ottawa.csv'' (world_with_jobs [example_job])))
     ''data/raw/Developer/Developer in Ottawa.csv'' = Some [example_job]"
  by (simp add: scrape_all_job_details_def world_with_jobs_def empty_world_def
        get_job_details_def get_ok ok_def)

text \<open>
  The same table with a second posting, on a network that fails six times and then
  answers: the first posting is dropped after the retries, the second is kept.
\<close>

lemma scrape_all_job_details_drops_failed_example:
  "fst (scrape_all_job_details example_scraper example_libraries net_busy_then_ok
          ''data/raw/Developer/Developer in Ottawa.csv''
          (world_with_jobs [example_job, example_job2])) =
     Inr ([example_job2], ''data/raw/Developer/Developer in Ottawa.csv'') \<and>
   job_files (snd (scrape_all_job_details example_scraper example_libraries net_busy_then_ok
          ''data/raw/Developer/Developer in Ottawa.csv''
          (world_with_jobs [example_job, example_job2])))
     ''data/raw/Developer/Developer in Ottawa.csv'' = Some [example_job2]"
proof -
  let ?w = "world_with_jobs [example_job, example_job2]"
  let ?path = "''data/raw/Developer/Developer in Ottawa.csv''"
  let ?sc = "job_details_scraper example_scraper"
  let ?g = "get default_handler net_busy_then_ok ''https://www.linkedin.com/jobs/view/1''
              (Some Map.empty) ?w"
  let ?w2 = "snd ?g"
  let ?rq2 = "build_request default_handler ''https://www.linkedin.com/jobs/view/2'' GET
                (Some Map.empty) None"
  have e: "requests ?w = []" "job_files ?w ?path = Some ([] @ example_job # [example_job2])"
    by (simp_all add: world_with_jobs_def empty_world_def)
  have h0: "details_loop example_scraper example_libraries net_busy_then_ok [] [] ?w = (Inr [], ?w)"
    by simp
  have "fst ?g = Inr None \<and> length (requests ?w2) = 6"
    by (simp add: get_def make_request_unfold Let_def e net_busy_then_ok_def default_handler_def)
  then have g: "?g = (Inr None, ?w2)" and n: "length (requests ?w2) = 6"
    by (simp_all add: prod_eq_iff)
  from g have h1: "get (request_handler ?sc) net_busy_then_ok ''https://www.linkedin.com/jobs/view/1''
                     (Some (scraper_headers ?sc)) ?w = (Inr None, ?w2)"
    by simp
  have h2: "details_loop example_scraper example_libraries net_busy_then_ok [example_job2] [] ?w2 =
              (Inr [example_job2], sent ?w2 ?rq2)"
    by (simp add: get_job_details_def
          get_ok [of net_busy_then_ok _ _ _ _ "\<lparr>status_code = 200, resp_text = ''empty''\<rparr>"]
          n net_busy_then_ok_def ok_def)
  from scrape_all_job_details_drops_failed [OF e(2) h0 _ h1 h2]
  show ?thesis by auto
qed

text \<open>
  On the same page \<open>empty\<close> the company pass drops the posting: the table returned and
  written has no row.
\<close>

lemma scrape_all_company_details_drops_unparseable_example:
  "parse_company_response example_libraries ''empty'' = [[]] \<and>
   fst (scrape_all_company_details example_scraper example_libraries (\<lambda>n rq. ok ''empty'')
          ''data/raw/Developer/Developer in Ottawa.csv'' (world_with_jobs [example_job3])) =
     Inr ([], ''data/raw/Developer/Developer in Ottawa.csv'') \<and>
   job_files (snd (scrape_all_company_details example_scraper example_libraries
          (\<lambda>n rq. ok ''empty'') ''data/raw/Developer/Developer in Ottawa.csv''
          (world_with_jobs [example_job3])))
     ''data/raw/Developer/Developer in Ottawa.csv'' = Some []"
proof -
  have p: "parse_company_response example_libraries ''empty'' = [[]]"
    by (simp add: parse_company_response_def example_libraries_def)
  have c: "company_url example_job3 = Some ''https://www.linkedin.com/company/acme''"
    by (simp add: example_job3_def)
  have sc: "request_handler (company_details_scraper example_scraper) = default_handler"
    "scraper_headers (company_details_scraper example_scraper) = Map.empty"
    by (simp_all add: example_scraper_def new_LinkedInScraper_def)
  show ?thesis
    by (simp add: p c sc scrape_all_company_details_def world_with_jobs_def empty_world_def
          get_company_details_def get_ok ok_def company_df_empty_def)
qed

section \<open>Properties of the dashboard functions\<close>

lemma mset_sort_values_Date [simp]: "mset (sort_values_Date asc df) = mset df"
  by (simp add: sort_values_Date_def)

lemma mset_groups:
  "distinct cs \<Longrightarrow>
   mset (concat (map (\<lambda>c. sort_values_Date True (filter (\<lambda>r. s_City r = c) df)) cs)) =
   filter_mset (\<lambda>r. s_City r \<in> set cs) (mset df)"
proof (induction cs)
  case Nil
  then show ?case by simp
next
  case (Cons c cs)
  then have "filter_mset (\<lambda>r. s_City r = c) (mset df) +
             filter_mset (\<lambda>r. s_City r \<in> set cs) (mset df) =
             filter_mset (\<lambda>r. s_City r \<in> set (c # cs)) (mset df)"
    by (intro multiset_eqI) auto
  with Cons show ?case by simp
qed

lemma mset_groupby_City_sorted [simp]: "mset (groupby_City_sorted df) = mset df"
proof -
  have "filter_mset (\<lambda>r. s_City r \<in> s_City ` set df) (mset df) = mset df"
    by (simp add: filter_mset_eq_conv)
  then show ?thesis
    by (simp add: groupby_City_sorted_def mset_groups)
qed

lemma length_groupby_diff [simp]: "length (groupby_diff prev df) = length df"
  by (induction df arbitrary: prev) simp_all

lemma with_delta_projection:
  "length ds = length df \<Longrightarrow>
   map (\<lambda>l. (l_Date l, l_City l, l_Total_Jobs l))
     (filter (\<lambda>l. l_Date l = m)
        (map (\<lambda>(r, d). \<lparr>l_Date = s_Date r, l_City = s_City r,
                         l_Total_Jobs = fillna0 (s_Total_Jobs r), l_delta = fillna0 d\<rparr>)
           (zip df ds))) =
   map (\<lambda>r. (s_Date r, s_City r, fillna0 (s_Total_Jobs r))) (filter (\<lambda>r. s_Date r = m) df)"
  by (induction ds df rule: list_induct2) simp_all

lemma with_delta_dates:
  "length ds = length df \<Longrightarrow>
   map l_Date
     (map (\<lambda>(r, d). \<lparr>l_Date = s_Date r, l_City = s_City r,
                      l_Total_Jobs = fillna0 (s_Total_Jobs r), l_delta = fillna0 d\<rparr>)
        (zip df ds)) = map s_Date df"
  by (induction ds df rule: list_induct2) simp_all

lemma Date_max_is_Max:
  "df \<noteq> [] \<Longrightarrow> Date_max df = Some (Max (l_Date ` set df))"
  by (cases df) (simp_all add: Date_max_def Max.set_eq_fold [symmetric])

text \<open>
  C8. For a time series file with at least one row, \<open>find_latest_jobs_cities\<close> returns
  exactly the rows whose date is the greatest date string \<open>m\<close> of the file in the
  lexicographic order of strings: every row returned has the date \<open>m\<close>, and the rows
  returned are, with their city and their count, the rows of the file dated \<open>m\<close>.
\<close>

theorem find_latest_jobs_cities_filter:
  assumes "count_files w
             (total_jobs_file (case data_dir_arg of None \<Rightarrow> ''data/raw/JobData'' | Some d \<Rightarrow> d)
                job_search) = Some df"
    and "JOB_DATE_OPTIONS job_date = Some column"
    and "df \<noteq> []"
  shows "\<exists>latest m.
           find_latest_jobs_cities job_search job_date data_dir_arg w = Inr latest \<and>
           m \<in> Date ` set df \<and> (\<forall>r \<in> set df. Date r \<le> m) \<and>
           (\<forall>l \<in> set latest. l_Date l = m) \<and>
           mset (map (\<lambda>l. (l_Date l, l_City l, l_Total_Jobs l)) latest) =
           mset (map (\<lambda>r. (Date r, City r, fillna0 (column r))) (filter (\<lambda>r. Date r = m) df))"
proof -
  let ?sel = "select_columns column df"
  let ?grouped = "groupby_City_sorted (sort_values_Date False ?sel)"
  let ?all = "with_delta ?grouped"
  define m where "m = Max (Date ` set df)"
  have g: "mset ?grouped = mset ?sel" by simp
  then have sg: "set ?grouped = set ?sel" by (rule mset_eq_setD)
  have dates: "l_Date ` set ?all = Date ` set df"
  proof -
    have "set (map l_Date ?all) = set (map s_Date ?grouped)"
      by (simp only: with_delta_def with_delta_dates length_groupby_diff)
    also have "\<dots> = s_Date ` set ?sel" using sg by simp
    also have "\<dots> = Date ` set df" by (simp add: select_columns_def image_image)
    finally show ?thesis by simp
  qed
  from assms(3) have ne: "?all \<noteq> []"
    using dates by auto
  from Date_max_is_Max [OF ne] dates have mx: "Date_max ?all = Some m"
    by (simp add: m_def)
  have res: "find_latest_jobs_cities job_search job_date data_dir_arg w =
               Inr (filter (\<lambda>l. l_Date l = m) ?all)"
    using assms(1,2) mx by (simp add: find_latest_jobs_cities_def Let_def)
  from assms(3) have m_in: "m \<in> Date ` set df" and m_ge: "\<forall>r \<in> set df. Date r \<le> m"
    by (simp_all add: m_def)
  have "map (\<lambda>l. (l_Date l, l_City l, l_Total_Jobs l)) (filter (\<lambda>l. l_Date l = m) ?all) =
        map (\<lambda>r. (s_Date r, s_City r, fillna0 (s_Total_Jobs r))) (filter (\<lambda>r. s_Date r = m) ?grouped)"
    by (simp only: with_delta_def with_delta_projection length_groupby_diff)
  then have "mset (map (\<lambda>l. (l_Date l, l_City l, l_Total_Jobs l)) (filter (\<lambda>l. l_Date l = m) ?all)) =
        image_mset (\<lambda>r. (s_Date r, s_City r, fillna0 (s_Total_Jobs r)))
          (filter_mset (\<lambda>r. s_Date r = m) (mset ?grouped))"
    by simp
  also have "\<dots> = image_mset (\<lambda>r. (s_Date r, s_City r, fillna0 (s_Total_Jobs r)))
          (filter_mset (\<lambda>r. s_Date r = m) (mset ?sel))"
    by (simp only: g)
  also have "\<dots> = mset (map (\<lambda>r. (Date r, City r, fillna0 (column r))) (filter (\<lambda>r. Date r = m) df))"
    by (simp add: select_columns_def filter_map comp_def flip: mset_filter mset_map)
  finally have pr: "mset (map (\<lambda>l. (l_Date l, l_City l, l_Total_Jobs l)) (filter (\<lambda>l. l_Date l = m) ?all)) =
      mset (map (\<lambda>r. (Date r, City r, fillna0 (column r))) (filter (\<lambda>r. Date r = m) df))" .
  show ?thesis
    by (intro exI [of _ "filter (\<lambda>l. l_Date l = m) ?all"] exI [of _ m] conjI res m_in m_ge pr) simp
qed

theorem find_latest_jobs_cities_filter_witness:
  "(''2024-01-05'' :: string) < ''2024-01-20'' \<and>
   find_latest_jobs_cities ''Developer'' ''Total'' None (world_with_counts example_series) =
     Inr [\<lparr>l_Date = ''2024-01-20'', l_City = ''Ottawa'', l_Total_Jobs = 130, l_delta = 30\<rparr>] \<and>
   (\<exists>latest m.
      find_latest_jobs_cities ''Developer'' ''Total'' None (world_with_counts example_series) =
        Inr latest \<and>
      m \<in> Date ` set example_series \<and>
      mset (map (\<lambda>l. (l_Date l, l_City l, l_Total_Jobs l)) latest) =
      mset (map (\<lambda>r. (Date r, City r, fillna0 (Total_Jobs r)))
             (filter (\<lambda>r. Date r = m) example_series)))"
proof -
  have f: "count_files (world_with_counts example_series)
             (total_jobs_file (case None of None \<Rightarrow> ''data/raw/JobData'' | Some d \<Rightarrow> d) ''Developer'') =
           Some example_series"
    by (simp add: world_with_counts_def total_jobs_file_def empty_world_def)
  have c: "JOB_DATE_OPTIONS ''Total'' = Some Total_Jobs"
    by (simp add: JOB_DATE_OPTIONS_def)
  have n: "example_series \<noteq> []"
    by (simp add: example_series_def)
  have v: "find_latest_jobs_cities ''Developer'' ''Total'' None (world_with_counts example_series) =
     Inr [\<lparr>l_Date = ''2024-01-20'', l_City = ''Ottawa'', l_Total_Jobs = 130, l_delta = 30\<rparr>]"
    by (simp add: find_latest_jobs_cities_def total_jobs_file_def empty_world_def
          world_with_counts_def JOB_DATE_OPTIONS_def
          example_series_def select_columns_def sort_values_Date_def groupby_City_sorted_def
          with_delta_def fillna0_def Date_max_def)
  from find_latest_jobs_cities_filter [OF f c n] v show ?thesis
    by auto
qed

end
